theory Spec2Isabelle
  imports Main "HOL-Library.Sublist"
begin

section \<open>Python values and exceptions\<close>

text \<open>
  The exceptions the driver and the namer can meet. The first group derives from
  \<^verbatim>\<open>Exception\<close>; \<^verbatim>\<open>SystemExit\<close>, \<^verbatim>\<open>KeyboardInterrupt\<close> and \<^verbatim>\<open>GeneratorExit\<close>
  derive from \<^verbatim>\<open>BaseException\<close> only.
\<close>

datatype exc =
    AttributeError
  | NameError string
  | TypeError
  | KeyError string
  | IndexError
  | OtherException string
  | SystemExit string
  | KeyboardInterrupt
  | GeneratorExit

fun is_Exception :: "exc \<Rightarrow> bool" where
  "is_Exception (SystemExit _) = False"
| "is_Exception KeyboardInterrupt = False"
| "is_Exception GeneratorExit = False"
| "is_Exception _ = True"

section \<open>Sequencing computations that may raise\<close>

definition bind_exc :: "exc + 'a \<Rightarrow> ('a \<Rightarrow> exc + 'b) \<Rightarrow> exc + 'b" where
  "bind_exc m f = (case m of Inl e \<Rightarrow> Inl e | Inr x \<Rightarrow> f x)"

fun map_exc :: "('a \<Rightarrow> exc + 'b) \<Rightarrow> 'a list \<Rightarrow> exc + 'b list" where
  "map_exc f [] = Inr []"
| "map_exc f (x # xs) =
     bind_exc (f x) (\<lambda>y. bind_exc (map_exc f xs) (\<lambda>ys. Inr (y # ys)))"

section \<open>String helpers of the standard library\<close>

text \<open>\<^verbatim>\<open>s.rfind(c)\<close>: the last index of \<open>c\<close>, or \<open>-1\<close>.\<close>

fun rfind :: "char \<Rightarrow> string \<Rightarrow> int" where
  "rfind c [] = -1"
| "rfind c (x # xs) =
     (let r = rfind c xs in
      if 0 \<le> r then r + 1 else if x = c then 0 else -1)"

text \<open>\<^verbatim>\<open>posixpath.basename\<close>: \<^verbatim>\<open>i = p.rfind('/') + 1; return p[i:]\<close>.\<close>

definition basename :: "string \<Rightarrow> string" where
  "basename p = drop (nat (rfind CHR ''/'' p + 1)) p"

text \<open>
  Splitting at every character that satisfies \<open>P\<close>: \<^verbatim>\<open>s.split('.')\<close> with
  \<open>P = (\<lambda>c. c = CHR ''.'')\<close> and \<^verbatim>\<open>re.split(r'[._]', s)\<close> with the two-character
  class. Empty pieces are kept, and the empty string gives one empty piece.
\<close>

fun split_on :: "(char \<Rightarrow> bool) \<Rightarrow> string \<Rightarrow> string list" where
  "split_on P [] = [[]]"
| "split_on P (c # cs) =
     (if P c then [] # split_on P cs
      else (case split_on P cs of
              [] \<Rightarrow> [[c]]
            | x # xs \<Rightarrow> (c # x) # xs))"

text \<open>\<^verbatim>\<open>xs[0]\<close>, raising on the empty list.\<close>

definition index0 :: "'a list \<Rightarrow> exc + 'a" where
  "index0 xs = (case xs of [] \<Rightarrow> Inl IndexError | x # _ \<Rightarrow> Inr x)"

definition is_dot :: "char \<Rightarrow> bool" where
  "is_dot c = (c = CHR ''.'')"

definition is_dot_or_underscore :: "char \<Rightarrow> bool" where
  "is_dot_or_underscore c = (c = CHR ''.'' \<or> c = CHR ''_'')"

text \<open>
  \<^verbatim>\<open>posixpath.join(a, *p)\<close> of Python 2: a component that starts with a slash
  replaces what came before; otherwise it is appended, after a slash unless the path so
  far is empty or already ends in one.
\<close>

definition join_step :: "string \<Rightarrow> string \<Rightarrow> string" where
  "join_step path b =
     (if b \<noteq> [] \<and> hd b = CHR ''/'' then b
      else if path = [] \<or> last path = CHR ''/'' then path @ b
      else path @ ''/'' @ b)"

fun path_join :: "string list \<Rightarrow> exc + string" where
  "path_join [] = Inl TypeError"
| "path_join (a # p) = Inr (foldl join_step a p)"

section \<open>The filename-token regular expressions\<close>

text \<open>
  The constructor searches with \<^verbatim>\<open>(tok)(?!.*tok).*?(?=[_])\<close> for the four tokens
  \<^verbatim>\<open>sub-\<close>, \<^verbatim>\<open>ses-\<close>, \<^verbatim>\<open>run-\<close> and \<^verbatim>\<open>res-\<close>. Each piece of the pattern is a function.
\<close>

text \<open>\<^verbatim>\<open>.*tok\<close> at the start of \<open>s\<close>: the dot does not match a newline.\<close>

fun dotstar_lit :: "string \<Rightarrow> string \<Rightarrow> bool" where
  "dotstar_lit tok [] = prefix tok []"
| "dotstar_lit tok (c # cs) =
     (prefix tok (c # cs) \<or> (c \<noteq> CHR 0x0A \<and> dotstar_lit tok cs))"

text \<open>
  \<^verbatim>\<open>.*?(?=[_])\<close> at the start of \<open>s\<close>: the shortest run of non-newline characters
  that an underscore follows; \<open>None\<close> when there is none.
\<close>

fun lazy_until_underscore :: "string \<Rightarrow> string option" where
  "lazy_until_underscore [] = None"
| "lazy_until_underscore (c # cs) =
     (if c = CHR ''_'' then Some []
      else if c = CHR 0x0A then None
      else map_option (Cons c) (lazy_until_underscore cs))"

text \<open>The whole pattern anchored at the start of \<open>s\<close>; the result is \<^verbatim>\<open>group()\<close>.\<close>

definition match_here :: "string \<Rightarrow> string \<Rightarrow> string option" where
  "match_here tok s =
     (if prefix tok s \<and> \<not> dotstar_lit tok (drop (length tok) s)
      then map_option (\<lambda>m. tok @ m) (lazy_until_underscore (drop (length tok) s))
      else None)"

text \<open>\<^verbatim>\<open>re.search\<close>: the match at the leftmost position that has one.\<close>

fun re_search :: "string \<Rightarrow> string \<Rightarrow> string option" where
  "re_search tok [] = match_here tok []"
| "re_search tok (c # cs) =
     (case match_here tok (c # cs) of
        Some m \<Rightarrow> Some m
      | None \<Rightarrow> re_search tok cs)"

section \<open>The output namer\<close>

text \<open>
  The directory tree \<^verbatim>\<open>self.dirs\<close>: a dictionary whose values are paths or
  dictionaries again. A dictionary is kept as an association list; the order of its keys
  stands for the iteration order of the Python dictionary, which Python 2 does not fix.
\<close>

datatype 'a nested = Leaf 'a | Dict "(string \<times> 'a nested) list"

type_synonym dirtree = "string nested"

record name_resource =
  subi :: string
  anati :: string
  sub :: string
  ses :: "string option"
  run :: "string option"
  temp :: string
  space :: string
  res :: "string option"
  basepath :: string
  outdir :: string
  dirs :: "dirtree option"

text \<open>\<^verbatim>\<open>_get_outdir\<close>: the session is appended only when it is truthy.\<close>

definition get_outdir_init :: "string \<Rightarrow> string \<Rightarrow> string option \<Rightarrow> exc + string" where
  "get_outdir_init bp sb se =
     (let olist = [bp];
          olist = olist @ [sb];
          olist = (case se of
                     None \<Rightarrow> olist
                   | Some s \<Rightarrow> if s \<noteq> [] then olist @ [s] else olist)
      in path_join olist)"

text \<open>
  \<^verbatim>\<open>name_resource.__init__\<close>. The subject match is dereferenced with \<^verbatim>\<open>.group()\<close>
  at once, so a failed search raises \<^verbatim>\<open>AttributeError\<close>; the other three searches
  are tested first. The attribute \<^verbatim>\<open>dirs\<close> does not exist before \<^verbatim>\<open>add_dirs\<close>.
\<close>

definition name_resource_init ::
  "string \<Rightarrow> string \<Rightarrow> string \<Rightarrow> string \<Rightarrow> exc + name_resource" where
  "name_resource_init modf t1wf tempf opath =
     bind_exc (index0 (split_on is_dot (basename modf))) (\<lambda>subi_v.
     bind_exc (index0 (split_on is_dot (basename t1wf))) (\<lambda>anati_v.
     bind_exc (case re_search ''sub-'' modf of
                 None \<Rightarrow> Inl AttributeError
               | Some m \<Rightarrow> Inr m) (\<lambda>sub_v.
     (let ses_v = re_search ''ses-'' modf;
          run_v = re_search ''run-'' modf
      in
     bind_exc (index0 (split_on is_dot (basename tempf))) (\<lambda>temp_v.
     bind_exc (index0 (split_on is_dot_or_underscore temp_v)) (\<lambda>space_v.
     (let res_v = re_search ''res-'' tempf in
     bind_exc (get_outdir_init opath sub_v ses_v) (\<lambda>outdir_v.
       Inr \<lparr> subi = subi_v, anati = anati_v, sub = sub_v, ses = ses_v,
             run = run_v, temp = temp_v, space = space_v, res = res_v,
             basepath = opath, outdir = outdir_v, dirs = None \<rparr>))))))))"

definition get_outdir :: "name_resource \<Rightarrow> string" where
  "get_outdir self = outdir self"

text \<open>\<^verbatim>\<open>"{}".format(x)\<close> for a string or \<^verbatim>\<open>None\<close>.\<close>

definition format_opt :: "string option \<Rightarrow> string" where
  "format_opt x = (case x of None \<Rightarrow> ''None'' | Some s \<Rightarrow> s)"

definition get_label :: "string \<Rightarrow> exc + string" where
  "get_label label =
     bind_exc (index0 (split_on is_dot_or_underscore (basename label))) (\<lambda>x.
     Inr (''label-'' @ x))"

definition get_template_space :: "name_resource \<Rightarrow> string" where
  "get_template_space self = ''space-'' @ space self @ ''_res-'' @ format_opt (res self)"

text \<open>
  \<^verbatim>\<open>name_derivative\<close> joins a folder taken from \<^verbatim>\<open>self.dirs\<close> and a file name. When
  the folder is a dictionary, \<^verbatim>\<open>posixpath.join\<close> fails on \<^verbatim>\<open>path.endswith\<close>, unless the
  file name is absolute and replaces it.
\<close>

definition name_derivative :: "dirtree \<Rightarrow> string \<Rightarrow> exc + string" where
  "name_derivative folder derivative =
     (case folder of
        Leaf f \<Rightarrow> path_join [f, derivative]
      | Dict _ \<Rightarrow>
          if derivative \<noteq> [] \<and> hd derivative = CHR ''/'' then Inr derivative
          else Inl AttributeError)"

definition get_mod_source :: "name_resource \<Rightarrow> string" where
  "get_mod_source self = subi self"

definition get_anat_source :: "name_resource \<Rightarrow> string" where
  "get_anat_source self = anati self"

section \<open>Dictionaries and \<^verbatim>\<open>flatten\<close>\<close>

text \<open>\<^verbatim>\<open>d[k] = v\<close>: an existing key keeps its place, a new key is added.\<close>

fun dict_set :: "(string \<times> 'v) list \<Rightarrow> string \<Rightarrow> 'v \<Rightarrow> (string \<times> 'v) list" where
  "dict_set [] k v = [(k, v)]"
| "dict_set ((k', v') # d) k v =
     (if k' = k then (k, v) # d else (k', v') # dict_set d k v)"

text \<open>\<^verbatim>\<open>d[k]\<close> on a value of \<^verbatim>\<open>self.dirs\<close>: a string has no string keys.\<close>

definition getitem :: "'a nested \<Rightarrow> string \<Rightarrow> exc + 'a nested" where
  "getitem d k =
     (case d of
        Leaf _ \<Rightarrow> Inl TypeError
      | Dict kvs \<Rightarrow> (case map_of kvs k of None \<Rightarrow> Inl (KeyError k) | Some v \<Rightarrow> Inr v))"

text \<open>
  \<^verbatim>\<open>flatten(current, result)\<close>. The list \<^verbatim>\<open>result\<close> is appended to in place and
  handed down; here it is passed along. The loop over the keys is \<open>flatten_items\<close>.
\<close>

fun flatten :: "'a nested \<Rightarrow> 'a list \<Rightarrow> 'a list"
  and flatten_items :: "(string \<times> 'a nested) list \<Rightarrow> 'a list \<Rightarrow> 'a list" where
  "flatten (Dict kvs) result = flatten_items kvs result"
| "flatten (Leaf v) result = result @ [v]"
| "flatten_items [] result = result"
| "flatten_items ((key, v) # kvs) result = flatten_items kvs (flatten v result)"

text \<open>
  \<^verbatim>\<open>flatten(current)\<close> without the second argument: the default list is created once,
  when the function is defined, and every such call appends to that one list and returns
  it. The state is the content of that list; the result is the same list.
\<close>

definition flatten_default :: "'a nested \<Rightarrow> 'a list \<Rightarrow> 'a list \<times> 'a list" where
  "flatten_default current shared = (let r = flatten current shared in (r, r))"

text \<open>\<^verbatim>\<open>sep.join(xs)\<close>.\<close>

fun str_join :: "string \<Rightarrow> string list \<Rightarrow> string" where
  "str_join sep [] = []"
| "str_join sep [x] = x"
| "str_join sep (x # y # ys) = x @ sep @ str_join sep (y # ys)"

section \<open>\<^verbatim>\<open>add_dirs\<close>\<close>

text \<open>The \<^verbatim>\<open>labels\<close> argument: one label file, or a list of them.\<close>

datatype labels_arg = OneLabel string | LabelList "string list"

definition as_label_list :: "labels_arg \<Rightarrow> string list" where
  "as_label_list labels = (case labels of OneLabel l \<Rightarrow> [l] | LabelList ls \<Rightarrow> ls)"

text \<open>The innermost loop: one entry per label under \<^verbatim>\<open>self.dirs[dirt][kwd]\<close>.\<close>

fun add_dirs_labels ::
  "string \<Rightarrow> string list \<Rightarrow> (string \<times> dirtree) list \<Rightarrow> exc + (string \<times> dirtree) list" where
  "add_dirs_labels newdir [] d = Inr d"
| "add_dirs_labels newdir (label # ls) d =
     bind_exc (get_label label) (\<lambda>labname.
     bind_exc (path_join [newdir, labname]) (\<lambda>p.
     add_dirs_labels newdir ls (dict_set d labname (Leaf p))))"

text \<open>The loop over \<^verbatim>\<open>paths.iteritems()\<close> for one directory type.\<close>

fun add_dirs_paths ::
  "string \<Rightarrow> string \<Rightarrow> string list \<Rightarrow> string list \<Rightarrow> (string \<times> string) list \<Rightarrow>
     (string \<times> dirtree) list \<Rightarrow> exc + (string \<times> dirtree) list" where
  "add_dirs_paths od addstr labels label_dirs [] d = Inr d"
| "add_dirs_paths od addstr labels label_dirs ((kwd, path) # ps) d =
     bind_exc (path_join [od, addstr, path]) (\<lambda>newdir.
     if kwd \<in> set label_dirs then
       bind_exc (add_dirs_labels newdir labels []) (\<lambda>sub_d.
       add_dirs_paths od addstr labels label_dirs ps (dict_set d kwd (Dict sub_d)))
     else add_dirs_paths od addstr labels label_dirs ps (dict_set d kwd (Leaf newdir)))"

text \<open>The loop over \<^verbatim>\<open>dirtypes\<close>.\<close>

fun add_dirs_types ::
  "string \<Rightarrow> string list \<Rightarrow> string list \<Rightarrow> (string \<times> string) list \<Rightarrow> string list \<Rightarrow>
     (string \<times> dirtree) list \<Rightarrow> exc + (string \<times> dirtree) list" where
  "add_dirs_types od labels label_dirs paths [] ds = Inr ds"
| "add_dirs_types od labels label_dirs paths (dirt # dirtypes) ds =
     (let addstr = (if dirt = ''output'' then [] else dirt) in
      bind_exc (path_join [od, addstr]) (\<lambda>base.
      bind_exc (add_dirs_paths od addstr labels label_dirs paths (dict_set [] ''base'' (Leaf base)))
        (\<lambda>d.
      add_dirs_types od labels label_dirs paths dirtypes (dict_set ds dirt (Dict d)))))"

text \<open>
  \<^verbatim>\<open>add_dirs\<close> up to the shell command: the new state of the object, the flattened
  directory list and the \<^verbatim>\<open>mkdir\<close> command handed to \<^verbatim>\<open>mgu.execute_cmd\<close>.
\<close>

definition add_dirs_build ::
  "name_resource \<Rightarrow> (string \<times> string) list \<Rightarrow> labels_arg \<Rightarrow> string list \<Rightarrow>
     exc + name_resource \<times> string list \<times> string" where
  "add_dirs_build self paths labels label_dirs =
     (let self0 = self\<lparr>dirs := Some (Dict [])\<rparr>;
          labels = as_label_list labels;
          dirtypes = [''output'', ''tmp'', ''qa'']
      in
      bind_exc (add_dirs_types (get_outdir self0) labels label_dirs paths dirtypes []) (\<lambda>ds.
        (let self1 = self0\<lparr>dirs := Some (Dict ds)\<rparr>;
             newdirs = flatten (Dict ds) [];
             cmd = ''mkdir -p '' @ str_join '' '' newdirs
         in Inr (self1, newdirs, cmd))))"

section \<open>The driver: events, the outside world and the module's names\<close>

text \<open>
  What a run does to the outside is a list of events: what it prints and which calls it
  makes into code outside these files (the preprocessing, registration, nuisance,
  timeseries, graph and quality-control modules, and \<^verbatim>\<open>mgu.execute_cmd\<close>). Arguments
  are recorded; an object is named by the variable that holds it.
\<close>

datatype pyarg =
    AStr string
  | AOpt "string option"
  | ATree dirtree
  | AObj string

datatype event =
    Print string
  | PrintTraceback exc
  | Call string "pyarg list"

text \<open>
  The outside world decides, from the calls made so far (the last one being the call in
  hand), whether that call raises.
\<close>

type_synonym world = "event list \<Rightarrow> exc option"

type_synonym 'a prog = "event list \<Rightarrow> (exc + 'a) \<times> event list"

definition returnp :: "'a \<Rightarrow> 'a prog" where
  "returnp x tr = (Inr x, tr)"

definition raisep :: "exc \<Rightarrow> 'a prog" where
  "raisep e tr = (Inl e, tr)"

definition liftp :: "exc + 'a \<Rightarrow> 'a prog" where
  "liftp m tr = (m, tr)"

definition bindp :: "'a prog \<Rightarrow> ('a \<Rightarrow> 'b prog) \<Rightarrow> 'b prog" where
  "bindp m f tr =
     (case m tr of
        (Inl e, tr') \<Rightarrow> (Inl e, tr')
      | (Inr x, tr') \<Rightarrow> f x tr')"

definition thenp :: "unit prog \<Rightarrow> 'b prog \<Rightarrow> 'b prog" where
  "thenp m k = bindp m (\<lambda>_. k)"

definition printp :: "string \<Rightarrow> unit prog" where
  "printp s tr = (Inr (), tr @ [Print s])"

definition ext_call :: "world \<Rightarrow> string \<Rightarrow> pyarg list \<Rightarrow> unit prog" where
  "ext_call w f args tr =
     (let tr' = tr @ [Call f args] in
      case w tr' of
        None \<Rightarrow> (Inr (), tr')
      | Some e \<Rightarrow> (Inl e, tr'))"

text \<open>
  The global names of \<^verbatim>\<open>ndmg_func_pipeline.py\<close>, in the order its lines 23 to 38 and
  its definitions bind them. \<^verbatim>\<open>from ndmg.stats.qa_reg import *\<close> on line 36 binds
  whatever public names that module has; that module is not among these files, so its
  names are the parameter \<open>star\<close>. Neither \<^verbatim>\<open>sys\<close> nor \<^verbatim>\<open>label_name\<close> is a builtin,
  and no function of the file has a parameter or a local variable of either name, so
  both are looked up here.
\<close>

datatype pyval = PyModule string | PyCallable string | PyStrList "string list"

definition names_before_star :: "(string \<times> pyval) list" where
  "names_before_star =
     [(''np'', PyModule ''numpy''),
      (''nb'', PyModule ''nibabel''),
      (''op'', PyModule ''os.path''),
      (''ArgumentParser'', PyCallable ''ArgumentParser''),
      (''datetime'', PyCallable ''datetime''),
      (''mgu'', PyModule ''ndmg.utils.utils''),
      (''mgreg'', PyCallable ''epi_register''),
      (''mgg'', PyCallable ''graph''),
      (''mgts'', PyCallable ''timeseries''),
      (''qa_func'', PyCallable ''qa_func''),
      (''mgfp'', PyCallable ''preproc_func''),
      (''mgap'', PyCallable ''preproc_anat''),
      (''mgn'', PyCallable ''nuis'')]"

definition names_after_star :: "(string \<times> pyval) list" where
  "names_after_star =
     [(''traceback'', PyModule ''traceback''),
      (''name_resource'', PyCallable ''name_resource''),
      (''ndmg_func_worker'', PyCallable ''ndmg_func_worker''),
      (''ndmg_func_pipeline'', PyCallable ''ndmg_func_pipeline''),
      (''main'', PyCallable ''main'')]"

definition lookup_global :: "(string \<rightharpoonup> pyval) \<Rightarrow> string \<Rightarrow> exc + pyval" where
  "lookup_global star n =
     (case map_of names_after_star n of
        Some v \<Rightarrow> Inr v
      | None \<Rightarrow>
     (case star n of
        Some v \<Rightarrow> Inr v
      | None \<Rightarrow>
     (case map_of names_before_star n of
        Some v \<Rightarrow> Inr v
      | None \<Rightarrow> Inl (NameError n))))"

text \<open>Iterating over a global: only a list can be iterated.\<close>

definition iterate :: "pyval \<Rightarrow> exc + string list" where
  "iterate v = (case v of PyStrList xs \<Rightarrow> Inr xs | _ \<Rightarrow> Inl TypeError)"

text \<open>\<^verbatim>\<open>xs[idx]\<close> for an index that \<^verbatim>\<open>enumerate\<close> produced.\<close>

definition list_index :: "'a list \<Rightarrow> nat \<Rightarrow> exc + 'a" where
  "list_index xs i = (if i < length xs then Inr (xs ! i) else Inl IndexError)"

text \<open>
  \<^verbatim>\<open>namer[key]\<close>: \<^verbatim>\<open>name_resource\<close> is an old-style class without \<^verbatim>\<open>__getitem__\<close>, so
  subscripting an instance raises \<^verbatim>\<open>AttributeError\<close>.
\<close>

definition instance_getitem :: "name_resource \<Rightarrow> string \<Rightarrow> exc + dirtree" where
  "instance_getitem self key = Inl AttributeError"

text \<open>\<^verbatim>\<open>namer.dirs\<close>, an attribute that exists once \<^verbatim>\<open>add_dirs\<close> has run.\<close>

definition dirs_of :: "name_resource \<Rightarrow> exc + dirtree" where
  "dirs_of self = (case dirs self of None \<Rightarrow> Inl AttributeError | Some d \<Rightarrow> Inr d)"

definition dirs2 :: "name_resource \<Rightarrow> string \<Rightarrow> string \<Rightarrow> exc + dirtree" where
  "dirs2 self a b =
     bind_exc (dirs_of self) (\<lambda>d. bind_exc (getitem d a) (\<lambda>x. getitem x b))"

definition dirs1 :: "name_resource \<Rightarrow> string \<Rightarrow> exc + dirtree" where
  "dirs1 self a = bind_exc (dirs_of self) (\<lambda>d. getitem d a)"

text \<open>
  \<^verbatim>\<open>"{}".format(v)\<close> for a value of \<^verbatim>\<open>self.dirs\<close>. A dictionary is shown as Python
  shows it when its strings need no escaping.
\<close>

fun format_tree :: "dirtree \<Rightarrow> string"
  and format_items :: "(string \<times> dirtree) list \<Rightarrow> string list" where
  "format_tree (Leaf s) = s"
| "format_tree (Dict kvs) = ''{'' @ str_join '', '' (format_items kvs) @ ''}''"
| "format_items [] = []"
| "format_items ((k, v) # kvs) =
     ([CHR 0x27] @ k @ [CHR 0x27] @ '': '' @
        (case v of Leaf s \<Rightarrow> [CHR 0x27] @ s @ [CHR 0x27] | Dict _ \<Rightarrow> format_tree v))
     # format_items kvs"

text \<open>\<^verbatim>\<open>add_dirs\<close> with its call of \<^verbatim>\<open>mgu.execute_cmd\<close>.\<close>

definition add_dirs ::
  "world \<Rightarrow> name_resource \<Rightarrow> (string \<times> string) list \<Rightarrow> labels_arg \<Rightarrow> string list \<Rightarrow>
     name_resource prog" where
  "add_dirs w self paths labels label_dirs =
     bindp (liftp (add_dirs_build self paths labels label_dirs)) (\<lambda>(self1, newdirs, cmd).
     thenp (ext_call w ''mgu.execute_cmd'' [AStr cmd])
     (returnp self1))"

section \<open>\<^verbatim>\<open>ndmg_func_worker\<close>\<close>

text \<open>
  The worker is cut at the banners of its source: the derivative names, the
  announcement, the stages up to the voxelwise timeseries, the loop over the
  parcellations and the end. Reading the clock (\<^verbatim>\<open>datetime.now()\<close>) is no event.
\<close>

definition paths :: "(string \<times> string) list" where
  "paths =
     [(''prep_f'', ''func/preproc''),
      (''prep_a'', ''anat/preproc''),
      (''reg_f'', ''func/registered''),
      (''reg_a'', ''anat/registered''),
      (''nuis_f'', ''func/clean''),
      (''nuis_a'', ''func/clean''),
      (''ts_voxel'', ''func/voxel-timeseries''),
      (''ts_roi'', ''func/roi-timeseries''),
      (''conn'', ''func/connectomes'')]"

definition opt_dirs :: "string list" where
  "opt_dirs = [''prep_f'', ''prep_a'', ''reg_f'', ''reg_a'', ''nuis_f'']"

definition clean_dirs :: "string list" where
  "clean_dirs = [''nuis_a'']"

definition label_dirs :: "string list" where
  "label_dirs = [''ts_roi'', ''conn'']"

text \<open>The derivative file names of lines 91 to 115.\<close>

record derivatives =
  qc_stats :: string
  preproc_func :: string
  motion_func :: string
  preproc_t1w_brain :: string
  aligned_func :: string
  aligned_t1w :: string
  nuis_func :: string
  voxel_ts :: string

definition derivative_names :: "name_resource \<Rightarrow> exc + derivatives" where
  "derivative_names namer =
     bind_exc (dirs2 namer ''qa'' ''base'') (\<lambda>qa_base.
     (let qc_stats_v = format_tree qa_base @ ''/'' @ get_mod_source namer @ ''_stats.pkl'';
          reg_fname = get_mod_source namer @ ''_'' @ get_template_space namer;
          reg_aname = get_anat_source namer @ ''_'' @ get_template_space namer
      in
     bind_exc (dirs2 namer ''output'' ''prep_f'') (\<lambda>d1.
     bind_exc (name_derivative d1 (get_mod_source namer @ ''_preproc.nii.gz'')) (\<lambda>preproc_func_v.
     bind_exc (dirs2 namer ''tmp'' ''prep_f'') (\<lambda>d2.
     bind_exc (name_derivative d2 (get_mod_source namer @ ''_variant-mc_preproc.nii.gz''))
       (\<lambda>motion_func_v.
     bind_exc (dirs2 namer ''output'' ''prep_a'') (\<lambda>d3.
     bind_exc (name_derivative d3 (get_anat_source namer @ ''_preproc_variant-brain.nii.gz''))
       (\<lambda>preproc_t1w_brain_v.
     bind_exc (dirs2 namer ''output'' ''reg_f'') (\<lambda>d4.
     bind_exc (name_derivative d4 (reg_fname @ ''_registered.nii.gz'')) (\<lambda>aligned_func_v.
     bind_exc (dirs2 namer ''output'' ''reg_a'') (\<lambda>d5.
     bind_exc (name_derivative d5 (reg_aname @ ''_registered.nii.gz'')) (\<lambda>aligned_t1w_v.
     bind_exc (dirs2 namer ''output'' ''nuis_f'') (\<lambda>d6.
     bind_exc (name_derivative d6 (reg_fname @ ''_clean.nii.gz'')) (\<lambda>nuis_func_v.
     bind_exc (dirs2 namer ''output'' ''ts_voxel'') (\<lambda>d7.
     bind_exc (name_derivative d7 (reg_fname @ ''_timeseries.nii.gz'')) (\<lambda>voxel_ts_v.
       Inr \<lparr> qc_stats = qc_stats_v, preproc_func = preproc_func_v,
             motion_func = motion_func_v, preproc_t1w_brain = preproc_t1w_brain_v,
             aligned_func = aligned_func_v, aligned_t1w = aligned_t1w_v,
             nuis_func = nuis_func_v, voxel_ts = voxel_ts_v \<rparr>))))))))))))))))"

text \<open>The announcement of lines 117 to 123.\<close>

definition announce :: "bool \<Rightarrow> derivatives \<Rightarrow> unit prog" where
  "announce clean dv =
     thenp (printp ''This pipeline will produce the following derivatives...'')
     (thenp (if \<not> clean then
               thenp (printp (''fMRI volumes preprocessed: '' @ preproc_func dv))
               (thenp (printp (''T1w volume preprocessed: '' @ preproc_t1w_brain dv))
               (thenp (printp (''fMRI volume registered to atlas: '' @ aligned_func dv))
               (printp (''fMRI volumes preprocessed: '' @ preproc_func dv))))
             else returnp ())
     (printp (''Voxel timecourse in atlas space: '' @ voxel_ts dv)))"

text \<open>One element of the two list comprehensions of lines 128 to 137.\<close>

definition connectome_name :: "name_resource \<Rightarrow> string \<Rightarrow> string \<Rightarrow> exc + string" where
  "connectome_name namer fmt lab =
     bind_exc (dirs2 namer ''output'' ''conn'') (\<lambda>d.
     bind_exc (get_label lab) (\<lambda>l1.
     bind_exc (getitem d l1) (\<lambda>folder.
     bind_exc (get_label lab) (\<lambda>l2.
     name_derivative folder
       (get_mod_source namer @ ''_'' @ l2 @ ''_measure-correlation.'' @ fmt)))))"

definition roi_ts_name :: "name_resource \<Rightarrow> string \<Rightarrow> exc + string" where
  "roi_ts_name namer lab =
     bind_exc (dirs2 namer ''output'' ''ts_roi'') (\<lambda>d.
     bind_exc (get_label lab) (\<lambda>l1.
     bind_exc (getitem d l1) (\<lambda>folder.
     bind_exc (get_label lab) (\<lambda>l2.
     name_derivative folder
       (get_mod_source namer @ ''_'' @ l2 @ ''_variant-mean_timeseries.npz'')))))"

text \<open>Lines 144 to 177: the stages up to the voxelwise timeseries.\<close>

definition stages ::
  "world \<Rightarrow> name_resource \<Rightarrow> derivatives \<Rightarrow> string \<Rightarrow> string \<Rightarrow> string \<Rightarrow> string \<Rightarrow>
     string \<Rightarrow> string \<Rightarrow> string option \<Rightarrow> unit prog" where
  "stages w namer dv func t1w atlas atlas_brain atlas_mask lv_mask stc =
     thenp (ext_call w ''qa_func'' [AObj ''namer''])
     (thenp (printp ''Preprocessing volumes...'')
     (bindp (liftp (dirs2 namer ''tmp'' ''prep_f'')) (\<lambda>tmp_prep_f.
     thenp (ext_call w ''mgfp''
              [AStr func, AStr (preproc_func dv), AStr (motion_func dv), ATree tmp_prep_f])
     (thenp (ext_call w ''f_prep.preprocess'' [AOpt stc])
     (thenp (ext_call w ''qc_func.func_preproc_qa'' [AObj ''f_prep''])
     (bindp (liftp (dirs2 namer ''tmp'' ''prep_a'')) (\<lambda>tmp_prep_a.
     thenp (ext_call w ''mgap'' [AStr t1w, AStr (preproc_t1w_brain dv), ATree tmp_prep_a])
     (thenp (ext_call w ''a_prep.preprocess'' [])
     (thenp (ext_call w ''qc_func.anat_preproc_qa'' [AObj ''a_prep''])
     (thenp (printp ''Aligning volumes...'')
     (bindp (liftp (dirs1 namer ''tmp'')) (\<lambda>tmp1.
     thenp (ext_call w ''mgreg''
              [AStr (preproc_func dv), AStr t1w, AStr (preproc_t1w_brain dv), AStr atlas,
               AStr atlas_brain, AStr atlas_mask, AStr (aligned_func dv),
               AStr (aligned_t1w dv), ATree tmp1])
     (thenp (ext_call w ''func_reg.self_align'' [])
     (thenp (ext_call w ''qc_func.self_reg_qa'' [AObj ''func_reg''])
     (thenp (ext_call w ''func_reg.template_align'' [])
     (thenp (ext_call w ''qc_func.temp_reg_qa'' [AObj ''func_reg''])
     (thenp (printp ''Correcting Nuisance Variables...'')
     (bindp (liftp (dirs1 namer ''tmp'')) (\<lambda>tmp2.
     thenp (ext_call w ''f_prep.mc_params'' [])
     (thenp (ext_call w ''mgn''
              [AStr (aligned_func dv), AStr (aligned_t1w dv), AStr (nuis_func dv), ATree tmp2,
               AStr lv_mask, AObj ''f_prep.mc_params''])
     (thenp (ext_call w ''nuis.nuis_correct'' [])
     (thenp (ext_call w ''qc_func.nuisance_qa'' [AObj ''nuis''])
     (thenp (printp ''Extracting Voxelwise Timeseries...'')
     (thenp (ext_call w ''mgts'' [])
     (thenp (ext_call w ''voxel_timeseries''
              [AStr (nuis_func dv), AStr atlas_mask, AStr (voxel_ts dv)])
     (ext_call w ''qc_func.voxel_ts_qa''
              [AObj ''voxel'', AStr (nuis_func dv), AStr atlas_mask])
     )))))))))))))))))))))))))"

text \<open>Lines 181 to 188: the body of the loop, for one pair of \<^verbatim>\<open>enumerate\<close>.\<close>

definition roi_body ::
  "world \<Rightarrow> derivatives \<Rightarrow> string list \<Rightarrow> string list \<Rightarrow> string list \<Rightarrow> string \<Rightarrow>
     nat \<Rightarrow> string \<Rightarrow> unit prog" where
  "roi_body w dv labels roi_ts connectomes fmt idx label =
     thenp (printp (''Extracting ROI timeseries for '' @ label @ '' parcellation...''))
     (thenp (ext_call w ''mgts'' [])
     (bindp (liftp (list_index labels idx)) (\<lambda>lab1.
     bindp (liftp (list_index roi_ts idx)) (\<lambda>rts.
     thenp (ext_call w ''roi_timeseries'' [AStr (nuis_func dv), AStr lab1, AStr rts])
     (thenp (ext_call w ''ts.shape'' [])
     (bindp (liftp (list_index labels idx)) (\<lambda>lab2.
     thenp (ext_call w ''mgg'' [AObj ''ts.shape[0]'', AStr lab2, AStr ''func''])
     (thenp (ext_call w ''connectome.cor_graph'' [AObj ''ts''])
     (thenp (ext_call w ''connectome.summary'' [])
     (bindp (liftp (list_index connectomes idx)) (\<lambda>cn.
     thenp (ext_call w ''connectome.save_graph'' [AStr cn, AStr fmt])
     (bindp (liftp (list_index labels idx)) (\<lambda>lab3.
     ext_call w ''qc_func.roi_ts_qa''
       [AObj ''ts'', AObj ''conn'', AStr (aligned_func dv), AStr (aligned_t1w dv), AStr lab3]
     )))))))))))))"

fun roi_loop ::
  "world \<Rightarrow> derivatives \<Rightarrow> string list \<Rightarrow> string list \<Rightarrow> string list \<Rightarrow> string \<Rightarrow>
     nat \<Rightarrow> string list \<Rightarrow> unit prog" where
  "roi_loop w dv labels roi_ts connectomes fmt idx [] = returnp ()"
| "roi_loop w dv labels roi_ts connectomes fmt idx (label # rest) =
     thenp (roi_body w dv labels roi_ts connectomes fmt idx label)
     (roi_loop w dv labels roi_ts connectomes fmt (Suc idx) rest)"

text \<open>
  Lines 190 to 200: saving the statistics and cleaning up. The elapsed time that is
  printed comes from the clock and is left out of the printed line.
\<close>

definition finish :: "world \<Rightarrow> name_resource \<Rightarrow> derivatives \<Rightarrow> bool \<Rightarrow> unit prog" where
  "finish w namer dv clean =
     thenp (ext_call w ''qc_func.save'' [AStr (qc_stats dv)])
     (thenp (printp ''Execution took: '')
     (bindp (liftp (bind_exc (instance_getitem namer ''tmp'') (\<lambda>t. getitem t ''base'')))
       (\<lambda>tmp_base.
     (let cmd = ''rm -rf '' @ format_tree tmp_base in
     bindp (if clean then
              bindp (liftp (map_exc
                       (\<lambda>dirn. bind_exc (instance_getitem namer ''output'')
                                  (\<lambda>out. getitem out dirn))
                       (opt_dirs @ clean_dirs))) (\<lambda>ds.
              (let deldirs = str_join '' '' (map format_tree ds) in
               returnp (cmd @ '' '' @ deldirs)))
            else returnp cmd) (\<lambda>cmd.
     thenp (ext_call w ''mgu.execute_cmd'' [AStr cmd])
     (printp ''Complete!''))))))"

definition ndmg_func_worker ::
  "(string \<rightharpoonup> pyval) \<Rightarrow> world \<Rightarrow> string \<Rightarrow> string \<Rightarrow> string \<Rightarrow> string \<Rightarrow> string \<Rightarrow>
     string \<Rightarrow> labels_arg \<Rightarrow> string \<Rightarrow> bool \<Rightarrow> string option \<Rightarrow> string \<Rightarrow> unit prog" where
  "ndmg_func_worker star w func t1w atlas atlas_brain atlas_mask lv_mask labels outd
       clean stc fmt =
     bindp (liftp (name_resource_init func t1w atlas outd)) (\<lambda>namer0.
     bindp (add_dirs w namer0 paths labels label_dirs) (\<lambda>namer.
     bindp (liftp (derivative_names namer)) (\<lambda>dv.
     thenp (announce clean dv)
     (let labels = as_label_list labels in
     bindp (liftp (map_exc (connectome_name namer fmt) labels)) (\<lambda>connectomes.
     bindp (liftp (map_exc (roi_ts_name namer) labels)) (\<lambda>roi_ts.
     thenp (printp (''ROI timeseries downsampled to given labels: '' @ str_join '', '' roi_ts))
     (thenp (printp (''Connectomes downsampled to given labels: '' @
                    str_join '', '' connectomes))
     (thenp (stages w namer dv func t1w atlas atlas_brain atlas_mask lv_mask stc)
     (bindp (liftp (bind_exc (lookup_global star ''label_name'') iterate)) (\<lambda>label_name.
     thenp (roi_loop w dv labels roi_ts connectomes fmt 0 label_name)
     (finish w namer dv clean)))))))))))"

section \<open>\<^verbatim>\<open>ndmg_func_pipeline\<close> and \<^verbatim>\<open>main\<close>\<close>

text \<open>
  \<^verbatim>\<open>try: ... except Exception, e: print(traceback.format_exc()); return\<close>. The clause
  catches what derives from \<^verbatim>\<open>Exception\<close>; anything else goes on to the caller.
\<close>

definition ndmg_func_pipeline ::
  "(string \<rightharpoonup> pyval) \<Rightarrow> world \<Rightarrow> string \<Rightarrow> string \<Rightarrow> string \<Rightarrow> string \<Rightarrow> string \<Rightarrow>
     string \<Rightarrow> labels_arg \<Rightarrow> string \<Rightarrow> bool \<Rightarrow> string option \<Rightarrow> string \<Rightarrow> unit prog" where
  "ndmg_func_pipeline star w func t1w atlas atlas_brain atlas_mask lv_mask labels outd
       clean stc fmt tr =
     (case ndmg_func_worker star w func t1w atlas atlas_brain atlas_mask lv_mask labels outd
             clean stc fmt tr of
        (Inl e, tr') \<Rightarrow>
          if is_Exception e then (Inr (), tr' @ [PrintTraceback e]) else (Inl e, tr')
      | (Inr u, tr') \<Rightarrow> (Inr (), tr'))"

text \<open>The namespace that \<^verbatim>\<open>parser.parse_args()\<close> returns.\<close>

record cli_args =
  arg_func :: string
  arg_t1w :: string
  arg_atlas :: string
  arg_atlas_brain :: string
  arg_atlas_mask :: string
  arg_lv_mask :: string
  arg_outdir :: string
  arg_stc :: string
  arg_labels :: "string list"
  arg_stc_file :: "string option"
  arg_clean :: bool
  arg_fmt :: string

text \<open>
  \<^verbatim>\<open>sys.exit(msg)\<close>: the name \<^verbatim>\<open>sys\<close> is looked up among the module's globals first.
\<close>

definition sys_exit :: "(string \<rightharpoonup> pyval) \<Rightarrow> string \<Rightarrow> 'a prog" where
  "sys_exit star msg =
     bindp (liftp (lookup_global star ''sys'')) (\<lambda>v.
     if v = PyModule ''sys'' then raisep (SystemExit msg) else raisep AttributeError)"

definition main ::
  "(string \<rightharpoonup> pyval) \<Rightarrow> (string \<Rightarrow> bool) \<Rightarrow> world \<Rightarrow> cli_args \<Rightarrow> unit prog" where
  "main star isfile w result =
     (let stc1 = (if arg_stc result = ''none'' then None else Some (arg_stc result)) in
     bindp (if stc1 = Some ''file'' then
              (case arg_stc_file result of
                 None \<Rightarrow>
                   sys_exit star
                     (''Selected 'file' option for slice timing correction but'' @
                      '' did not pass a file. Please select another option or'' @
                      '' provide a file.'')
               | Some f \<Rightarrow>
                   if \<not> isfile f then sys_exit star ''Invalid file for STC provided.''
                   else returnp (Some f))
            else returnp stc1) (\<lambda>stc2.
     thenp (printp (''Creating output directory: '' @ arg_outdir result))
     (thenp (printp (''Creating output temp directory: '' @ arg_outdir result @ ''/tmp''))
     (thenp (ext_call w ''mgu.execute_cmd''
              [AStr (''mkdir -p '' @ arg_outdir result @ '' '' @ arg_outdir result @ ''/tmp'')])
     (ndmg_func_pipeline star w (arg_func result) (arg_t1w result) (arg_atlas result)
        (arg_atlas_brain result) (arg_atlas_mask result) (arg_lv_mask result)
        (LabelList (arg_labels result)) (arg_outdir result) (arg_clean result) stc2
        (arg_fmt result))))))"

text \<open>
  The exit status of the interpreter: 0 when \<^verbatim>\<open>main\<close> returns; 1 when it ends in
  \<^verbatim>\<open>SystemExit\<close> with a message (which is printed) or in any other uncaught exception.
\<close>

definition exit_status :: "exc + unit \<Rightarrow> nat" where
  "exit_status r = (case r of Inr _ \<Rightarrow> 0 | Inl _ \<Rightarrow> 1)"

text \<open>Whether a run ended by an explicit \<^verbatim>\<open>sys.exit\<close>.\<close>

definition explicit_exit :: "exc + unit \<Rightarrow> bool" where
  "explicit_exit r = (case r of Inl (SystemExit _) \<Rightarrow> True | _ \<Rightarrow> False)"

section \<open>Notions used in the statements\<close>

text \<open>
  What the specification calls stripping the directory components and the extensions of
  a path: the part after the last slash, up to its first dot.
\<close>

definition strip_directories :: "string \<Rightarrow> string" where
  "strip_directories p = rev (takeWhile (\<lambda>c. c \<noteq> CHR ''/'') (rev p))"

definition strip_extensions :: "string \<Rightarrow> string" where
  "strip_extensions s = takeWhile (\<lambda>c. c \<noteq> CHR ''.'') s"

definition get_label_spec :: "string \<Rightarrow> string" where
  "get_label_spec label = ''label-'' @ strip_extensions (strip_directories label)"

text \<open>The values of a nested dictionary that are not dictionaries, in key order.\<close>

fun leaves :: "'a nested \<Rightarrow> 'a list"
  and leaves_items :: "(string \<times> 'a nested) list \<Rightarrow> 'a list" where
  "leaves (Leaf v) = [v]"
| "leaves (Dict kvs) = leaves_items kvs"
| "leaves_items [] = []"
| "leaves_items ((k, v) # kvs) = leaves v @ leaves_items kvs"

text \<open>
  The calls that build and save a graph, save the quality-control statistics, or run the
  cleanup command.
\<close>

definition graph_save_or_cleanup :: "event \<Rightarrow> bool" where
  "graph_save_or_cleanup e =
     (case e of
        Call f args \<Rightarrow>
          f = ''mgg'' \<or> f = ''connectome.cor_graph'' \<or> f = ''connectome.summary'' \<or>
          f = ''connectome.save_graph'' \<or> f = ''qc_func.save'' \<or>
          (f = ''mgu.execute_cmd'' \<and>
           (case args of [AStr cmd] \<Rightarrow> prefix ''rm -rf'' cmd | _ \<Rightarrow> False))
      | _ \<Rightarrow> False)"

definition quiet :: "event \<Rightarrow> bool" where
  "quiet e = (\<not> graph_save_or_cleanup e)"

text \<open>A computation all of whose new events satisfy \<open>P\<close>.\<close>

definition emits :: "(event \<Rightarrow> bool) \<Rightarrow> 'a prog \<Rightarrow> bool" where
  "emits P m = (\<forall>tr. \<exists>new. snd (m tr) = tr @ new \<and> list_all P new)"

text \<open>The cleanup command alone.\<close>

definition is_cleanup :: "event \<Rightarrow> bool" where
  "is_cleanup e =
     (case e of
        Call f args \<Rightarrow>
          f = ''mgu.execute_cmd'' \<and>
          (case args of [AStr cmd] \<Rightarrow> prefix ''rm -rf'' cmd | _ \<Rightarrow> False)
      | _ \<Rightarrow> False)"

definition no_cleanup :: "event \<Rightarrow> bool" where
  "no_cleanup e = (\<not> is_cleanup e)"

text \<open>
  A computation that returns only values that satisfy \<open>Q\<close> and raises only
  exceptions that satisfy \<open>E\<close>, or that the outside world raised in the last call.
\<close>

definition run_spec :: "world \<Rightarrow> ('a \<Rightarrow> bool) \<Rightarrow> (exc \<Rightarrow> bool) \<Rightarrow> 'a prog \<Rightarrow> bool" where
  "run_spec w Q E m =
     (\<forall>tr. case m tr of
             (Inr x, tr') \<Rightarrow> Q x
           | (Inl e, tr') \<Rightarrow> E e \<or> w tr' = Some e)"

text \<open>
  Two outside worlds: one in which no call raises, and one in which the user interrupts
  the run during the call named \<open>f\<close>.
\<close>

definition calm :: world where
  "calm tr = None"

definition interrupt_during :: "string \<Rightarrow> world" where
  "interrupt_during f tr =
     (case rev tr of
        Call g _ # _ \<Rightarrow> if g = f then Some KeyboardInterrupt else None
      | _ \<Rightarrow> None)"

text \<open>Command lines used in the examples.\<close>

definition example_args :: "string \<Rightarrow> string option \<Rightarrow> cli_args" where
  "example_args stc_v stc_file_v =
     \<lparr> arg_func = ''/data/sub-01/func/sub-01_task-rest_bold.nii.gz'',
       arg_t1w = ''/data/sub-01/anat/sub-01_T1w.nii.gz'',
       arg_atlas = ''/atlas/MNI152_T1w.nii.gz'',
       arg_atlas_brain = ''/atlas/MNI152_T1w_brain.nii.gz'',
       arg_atlas_mask = ''/atlas/MNI152_T1w_mask.nii.gz'',
       arg_lv_mask = ''/atlas/MNI152_lv_mask.nii.gz'',
       arg_outdir = ''/out'',
       arg_stc = stc_v,
       arg_labels = [''/atlas/desikan.nii.gz''],
       arg_stc_file = stc_file_v,
       arg_clean = False,
       arg_fmt = ''gpickle'' \<rparr>"

text \<open>
  The dictionary that \<^verbatim>\<open>add_dirs\<close> builds for one directory type from the paths of the
  worker, given the two dictionaries of the label level.
\<close>

definition dirtype_dict :: "string \<Rightarrow> string \<Rightarrow> (string \<times> dirtree) list \<Rightarrow>
    (string \<times> dirtree) list \<Rightarrow> (string \<times> dirtree) list" where
  "dirtype_dict od addstr roi conn =
     [(''base'', Leaf (foldl join_step od [addstr])),
      (''prep_f'', Leaf (foldl join_step od [addstr, ''func/preproc''])),
      (''prep_a'', Leaf (foldl join_step od [addstr, ''anat/preproc''])),
      (''reg_f'', Leaf (foldl join_step od [addstr, ''func/registered''])),
      (''reg_a'', Leaf (foldl join_step od [addstr, ''anat/registered''])),
      (''nuis_f'', Leaf (foldl join_step od [addstr, ''func/clean''])),
      (''nuis_a'', Leaf (foldl join_step od [addstr, ''func/clean''])),
      (''ts_voxel'', Leaf (foldl join_step od [addstr, ''func/voxel-timeseries''])),
      (''ts_roi'', Dict roi),
      (''conn'', Dict conn)]"

text \<open>A dictionary of the label level that has a path for every label of the list.\<close>

definition covers :: "string list \<Rightarrow> (string \<times> dirtree) list \<Rightarrow> bool" where
  "covers ls d = list_all (\<lambda>lab. case get_label lab of
                                   Inl e \<Rightarrow> False
                                 | Inr l \<Rightarrow> (case map_of d l of
                                              Some (Leaf p) \<Rightarrow> True
                                            | _ \<Rightarrow> False)) ls"

text \<open>
  The state of the namer after \<^verbatim>\<open>add_dirs\<close> with the paths of the worker: three
  directory types, each with its dictionary, the label level of the outputs covering the
  labels.
\<close>

definition ready :: "string list \<Rightarrow> name_resource \<Rightarrow> bool" where
  "ready ls namer =
     (\<exists>od ro co rt ct rq cq. covers ls ro \<and> covers ls co \<and>
        dirs namer = Some (Dict [(''output'', Dict (dirtype_dict od [] ro co)),
                                 (''tmp'', Dict (dirtype_dict od ''tmp'' rt ct)),
                                 (''qa'', Dict (dirtype_dict od ''qa'' rq cq))]))"

section \<open>Facts about the string helpers\<close>

lemma bind_exc_Inl [simp]: "bind_exc (Inl e) f = Inl e"
  by (simp add: bind_exc_def)

lemma bind_exc_Inr [simp]: "bind_exc (Inr x) f = f x"
  by (simp add: bind_exc_def)

lemma split_on_nonempty: "split_on P s \<noteq> []"
  by (induction s) (auto split: list.splits)

lemma index0_split_on: "index0 (split_on P s) = Inr (takeWhile (\<lambda>c. \<not> P c) s)"
  by (induction s) (auto simp: index0_def split: list.splits)

lemma rfind_negative: "rfind c s < 0 \<longleftrightarrow> c \<notin> set s"
  by (induction s) (auto simp: Let_def)

lemma rfind_ge: "- 1 \<le> rfind c s"
  by (induction s) (auto simp: Let_def)

lemma basename_strip_directories: "basename p = strip_directories p"
proof (induction p)
  case Nil
  show ?case by (simp add: basename_def strip_directories_def)
next
  case (Cons x xs)
  show ?case
  proof (cases "CHR ''/'' \<in> set xs")
    case True
    then have r: "0 \<le> rfind CHR ''/'' xs"
      using rfind_negative [of "CHR ''/''" xs] by simp
    then have "nat (rfind CHR ''/'' xs + 1 + 1) = Suc (nat (rfind CHR ''/'' xs + 1))"
      by simp
    with r have "basename (x # xs) = basename xs"
      by (simp add: basename_def Let_def)
    moreover have "strip_directories (x # xs) = strip_directories xs"
      using True by (simp add: strip_directories_def takeWhile_append1)
    ultimately show ?thesis using Cons by simp
  next
    case False
    then have r: "rfind CHR ''/'' xs = - 1"
      using rfind_negative [of "CHR ''/''" xs] rfind_ge [of "CHR ''/''" xs] by simp
    have tw: "takeWhile (\<lambda>c. c \<noteq> CHR ''/'') (rev xs @ ys) =
        rev xs @ takeWhile (\<lambda>c. c \<noteq> CHR ''/'') ys" for ys
      by (rule takeWhile_append2) (use False in auto)
    show ?thesis
      using r by (simp add: basename_def strip_directories_def Let_def tw)
  qed
qed

lemma basename_no_slash: "CHR ''/'' \<notin> set (basename p)"
proof -
  have "CHR ''/'' \<notin> set (takeWhile (\<lambda>c. c \<noteq> CHR ''/'') (rev p))"
    by (auto dest: set_takeWhileD)
  then show ?thesis
    by (simp add: basename_strip_directories strip_directories_def)
qed

lemma path_join_total: "\<exists>p. path_join (a # xs) = Inr p"
  by simp

section \<open>Facts about the token search\<close>

lemma lazy_until_underscore_Some:
  "lazy_until_underscore s = Some m \<Longrightarrow>
     \<exists>rest. s = m @ CHR ''_'' # rest \<and> CHR ''_'' \<notin> set m \<and> CHR 0x0A \<notin> set m"
  by (induction s arbitrary: m) (auto split: if_splits)

lemma lazy_until_underscore_append:
  "CHR ''_'' \<notin> set x \<Longrightarrow> CHR 0x0A \<notin> set x \<Longrightarrow>
     lazy_until_underscore (x @ CHR ''_'' # rest) = Some x"
  by (induction x) auto

lemma dotstar_lit_sublist: "dotstar_lit tok s \<Longrightarrow> sublist tok s"
  by (induction s) (auto simp: sublist_Cons_right)

lemma dotstar_lit_append:
  "CHR 0x0A \<notin> set pre \<Longrightarrow> dotstar_lit tok (pre @ tok @ rest)"
proof (induction pre)
  case Nil
  have "prefix tok (tok @ rest)" by simp
  then show ?case by (cases "tok @ rest") auto
next
  case (Cons c pre)
  then show ?case by auto
qed

lemma match_here_Some:
  "match_here tok s = Some m \<Longrightarrow>
     \<exists>x rest. s = tok @ x @ CHR ''_'' # rest \<and> m = tok @ x \<and> CHR ''_'' \<notin> set x"
  by (auto simp: match_here_def prefix_def split: if_splits dest!: lazy_until_underscore_Some)

lemma match_here_not_prefix: "\<not> prefix tok s \<Longrightarrow> match_here tok s = None"
  by (simp add: match_here_def)

lemma match_here_later_tok:
  "dotstar_lit tok (drop (length tok) s) \<Longrightarrow> match_here tok s = None"
  by (simp add: match_here_def)

lemma re_search_Some:
  "re_search tok s = Some m \<Longrightarrow>
     \<exists>pre x rest. s = pre @ tok @ x @ CHR ''_'' # rest \<and> m = tok @ x \<and> CHR ''_'' \<notin> set x"
proof (induction s)
  case Nil
  then show ?case by (auto dest!: match_here_Some)
next
  case (Cons c cs)
  show ?case
  proof (cases "match_here tok (c # cs)")
    case None
    with Cons obtain pre x rest
      where "cs = pre @ tok @ x @ CHR ''_'' # rest" "m = tok @ x" "CHR ''_'' \<notin> set x"
      by auto
    then have "c # cs = (c # pre) @ tok @ x @ CHR ''_'' # rest \<and> m = tok @ x
        \<and> CHR ''_'' \<notin> set x"
      by simp
    then show ?thesis by blast
  next
    case (Some a)
    with Cons.prems have "a = m" by simp
    with Some obtain x rest
      where "c # cs = [] @ tok @ x @ CHR ''_'' # rest \<and> m = tok @ x \<and> CHR ''_'' \<notin> set x"
      by (auto dest!: match_here_Some)
    then show ?thesis by blast
  qed
qed

lemma re_search_None_no_sublist: "\<not> sublist tok s \<Longrightarrow> re_search tok s = None"
proof (rule ccontr)
  assume a: "\<not> sublist tok s" and "re_search tok s \<noteq> None"
  then obtain m where "re_search tok s = Some m" by auto
  from re_search_Some [OF this] have "sublist tok s" by (auto simp: sublist_def)
  with a show False by simp
qed

lemma sub_tok_no_overlap:
  assumes "prefix ''sub-'' (c # pre @ ''sub-'' @ t)"
  shows "\<exists>a b d pre'. pre = a # b # d # pre'"
proof (cases pre)
  case Nil
  with assms show ?thesis by simp
next
  case c1: (Cons a p1)
  show ?thesis
  proof (cases p1)
    case Nil
    with c1 assms show ?thesis by simp
  next
    case c2: (Cons b p2)
    show ?thesis
    proof (cases p2)
      case Nil
      with c1 c2 assms show ?thesis by simp
    next
      case (Cons d p3)
      with c1 c2 show ?thesis by simp
    qed
  qed
qed

lemma re_search_sub_last:
  assumes "CHR 0x0A \<notin> set pre" and "CHR 0x0A \<notin> set x" and "CHR ''_'' \<notin> set x"
    and "\<not> sublist ''sub-'' (x @ CHR ''_'' # rest)"
  shows "re_search ''sub-'' (pre @ ''sub-'' @ x @ CHR ''_'' # rest) = Some (''sub-'' @ x)"
  using assms(1)
proof (induction pre)
  case Nil
  have "\<not> dotstar_lit ''sub-'' (x @ CHR ''_'' # rest)"
    using assms(4) dotstar_lit_sublist by blast
  then have "match_here ''sub-'' (''sub-'' @ x @ CHR ''_'' # rest) = Some (''sub-'' @ x)"
    using assms(2,3) by (simp add: match_here_def lazy_until_underscore_append)
  then show ?case by simp
next
  case (Cons c pre)
  let ?t = "x @ CHR ''_'' # rest"
  have "match_here ''sub-'' (c # pre @ ''sub-'' @ ?t) = None"
  proof (cases "prefix ''sub-'' (c # pre @ ''sub-'' @ ?t)")
    case False
    then show ?thesis by (rule match_here_not_prefix)
  next
    case True
    then obtain a b d pre' where pre: "pre = a # b # d # pre'"
      using sub_tok_no_overlap by blast
    have "CHR 0x0A \<notin> set pre'"
      using Cons.prems pre by simp
    then have "dotstar_lit ''sub-'' (pre' @ ''sub-'' @ ?t)"
      by (rule dotstar_lit_append)
    then have "dotstar_lit ''sub-'' (drop (length ''sub-'') (c # pre @ ''sub-'' @ ?t))"
      by (simp add: pre)
    then show ?thesis by (rule match_here_later_tok)
  qed
  moreover have "re_search ''sub-'' (pre @ ''sub-'' @ ?t) = Some (''sub-'' @ x)"
    using Cons by simp
  ultimately show ?case by simp
qed

section \<open>The constructor of the namer\<close>

lemma get_outdir_init_total: "\<exists>d. get_outdir_init bp sb se = Inr d"
  by (simp add: get_outdir_init_def Let_def split: option.splits)

lemma get_outdir_init_no_session:
  "get_outdir_init bp sb None = path_join [bp, sb]"
  by (simp add: get_outdir_init_def)

lemma name_resource_init_sub_None:
  "re_search ''sub-'' modf = None \<Longrightarrow>
     name_resource_init modf t1wf tempf opath = Inl AttributeError"
  by (simp add: name_resource_init_def index0_split_on)

lemma name_resource_init_sub_Some:
  assumes "re_search ''sub-'' modf = Some s"
  shows "\<exists>r. name_resource_init modf t1wf tempf opath = Inr r \<and> sub r = s
    \<and> ses r = re_search ''ses-'' modf \<and> run r = re_search ''run-'' modf
    \<and> res r = re_search ''res-'' tempf \<and> basepath r = opath \<and> dirs r = None
    \<and> get_outdir_init opath s (re_search ''ses-'' modf) = Inr (outdir r)"
proof -
  obtain d where "get_outdir_init opath s (re_search ''ses-'' modf) = Inr d"
    using get_outdir_init_total by blast
  then show ?thesis using assms
    by (simp add: name_resource_init_def index0_split_on Let_def)
qed

lemma name_resource_init_Inr:
  assumes "name_resource_init modf t1wf tempf opath = Inr r"
  shows "re_search ''sub-'' modf = Some (sub r)"
proof (cases "re_search ''sub-'' modf")
  case None
  with assms show ?thesis by (simp add: name_resource_init_sub_None)
next
  case (Some s)
  from name_resource_init_sub_Some [OF this, of t1wf tempf opath] assms Some
  show ?thesis by auto
qed

section \<open>Claims about the namer\<close>

text \<open>
  C3, as amended. When the last \<^verbatim>\<open>sub-\<close> of the modality filename is followed by a
  label without underscore and then an underscore, and no newline precedes that
  underscore, the constructor succeeds and the subject field is \<^verbatim>\<open>sub-\<close> followed by
  that label.
\<close>

theorem subject_token_derived:
  assumes "modf = pre @ ''sub-'' @ x @ CHR ''_'' # rest"
    and "CHR 0x0A \<notin> set pre" and "CHR 0x0A \<notin> set x" and "CHR ''_'' \<notin> set x"
    and "\<not> sublist ''sub-'' (x @ CHR ''_'' # rest)"
  shows "\<exists>r. name_resource_init modf t1wf tempf opath = Inr r \<and> sub r = ''sub-'' @ x"
proof -
  have "re_search ''sub-'' modf = Some (''sub-'' @ x)"
    unfolding assms(1) using assms(2-5) by (rule re_search_sub_last)
  from name_resource_init_sub_Some [OF this, of t1wf tempf opath]
  show ?thesis by blast
qed

theorem subject_token_derived_witness:
  "\<exists>r. name_resource_init ''/data/sub-0025864/func/sub-0025864_ses-1_bold.nii.gz''
          ''/data/sub-0025864/anat/sub-0025864_ses-1_T1w.nii.gz''
          ''/atlas/MNI152_res-2mm_T1w.nii.gz'' ''/out'' = Inr r \<and> sub r = ''sub-0025864''"
  using subject_token_derived [of "''/data/sub-0025864/func/sub-0025864_ses-1_bold.nii.gz''"
      "''/data/sub-0025864/func/''" "''0025864''" "''ses-1_bold.nii.gz''"
      "''/data/sub-0025864/anat/sub-0025864_ses-1_T1w.nii.gz''"
      "''/atlas/MNI152_res-2mm_T1w.nii.gz''" "''/out''"]
  by (simp add: sublist_code)

text \<open>
  C3 as stated fails: a filename that holds \<^verbatim>\<open>sub-01\<close> with no underscore after it
  makes the constructor raise, and of two subject tokens the last one is taken.
\<close>

theorem subject_token_counterexample:
  "name_resource_init ''sub-01.nii.gz'' ''sub-01_T1w.nii.gz'' ''MNI152_res-2mm_T1w.nii.gz'' ''/out''
     = Inl AttributeError
   \<and> map_sum id sub (name_resource_init ''sub-01_sub-02_bold.nii.gz'' ''sub-01_T1w.nii.gz''
        ''MNI152_res-2mm_T1w.nii.gz'' ''/out'') = Inr ''sub-02''"
  by code_simp

text \<open>
  C9. A modality filename without a \<^verbatim>\<open>sub-\<close> that an underscore follows later makes the
  constructor raise. The session, run and resolution tokens are optional: when the
  subject search succeeds and those tokens are absent, the constructor returns with the
  three fields \<open>None\<close>.
\<close>

theorem subject_token_mandatory:
  "(\<not> (\<exists>pre mid rest. modf = pre @ ''sub-'' @ mid @ CHR ''_'' # rest) \<longrightarrow>
      name_resource_init modf t1wf tempf opath = Inl AttributeError)
   \<and> (re_search ''sub-'' modf \<noteq> None \<longrightarrow> \<not> sublist ''ses-'' modf \<longrightarrow>
        \<not> sublist ''run-'' modf \<longrightarrow> \<not> sublist ''res-'' tempf \<longrightarrow>
      (\<exists>r. name_resource_init modf t1wf tempf opath = Inr r
          \<and> ses r = None \<and> run r = None \<and> res r = None))"
proof (intro conjI impI)
  assume no: "\<not> (\<exists>pre mid rest. modf = pre @ ''sub-'' @ mid @ CHR ''_'' # rest)"
  have "re_search ''sub-'' modf = None"
  proof (cases "re_search ''sub-'' modf")
    case None
    then show ?thesis .
  next
    case (Some m)
    from re_search_Some [OF this] no show ?thesis by blast
  qed
  then show "name_resource_init modf t1wf tempf opath = Inl AttributeError"
    by (rule name_resource_init_sub_None)
next
  assume "re_search ''sub-'' modf \<noteq> None"
    and a: "\<not> sublist ''ses-'' modf" "\<not> sublist ''run-'' modf" "\<not> sublist ''res-'' tempf"
  then obtain s where "re_search ''sub-'' modf = Some s" by auto
  from name_resource_init_sub_Some [OF this, of t1wf tempf opath] a
  show "\<exists>r. name_resource_init modf t1wf tempf opath = Inr r
          \<and> ses r = None \<and> run r = None \<and> res r = None"
    by (auto simp: re_search_None_no_sublist)
qed

theorem subject_token_mandatory_witness:
  "name_resource_init ''task-rest.bold.nii.gz'' ''T1w.nii.gz'' ''atlas.nii.gz'' ''/out''
     = Inl AttributeError
   \<and> (\<exists>r. name_resource_init ''sub-01_bold.nii.gz'' ''sub-01_T1w.nii.gz'' ''atlas.nii.gz'' ''/out''
            = Inr r \<and> ses r = None \<and> run r = None \<and> res r = None)"
proof -
  have h1: "\<not> (\<exists>pre mid rest.
      ''task-rest.bold.nii.gz'' = pre @ ''sub-'' @ mid @ CHR ''_'' # rest)"
  proof
    assume "\<exists>pre mid rest. ''task-rest.bold.nii.gz'' = pre @ ''sub-'' @ mid @ CHR ''_'' # rest"
    then obtain pre mid rest
      where eq: "''task-rest.bold.nii.gz'' = pre @ ''sub-'' @ mid @ CHR ''_'' # rest"
      by blast
    have "CHR ''_'' \<in> set (pre @ ''sub-'' @ mid @ CHR ''_'' # rest)"
      by simp
    then have "CHR ''_'' \<in> set ''task-rest.bold.nii.gz''"
      by (simp only: eq)
    then show False by simp
  qed
  have h2: "re_search ''sub-'' ''sub-01_bold.nii.gz'' \<noteq> None"
    by code_simp
  have h3: "\<not> sublist ''ses-'' ''sub-01_bold.nii.gz''"
    and h4: "\<not> sublist ''run-'' ''sub-01_bold.nii.gz''"
    and h5: "\<not> sublist ''res-'' ''atlas.nii.gz''"
    by (simp_all add: sublist_code)
  note a = subject_token_mandatory [of "''task-rest.bold.nii.gz''" "''T1w.nii.gz''"
        "''atlas.nii.gz''" "''/out''", THEN conjunct1, rule_format, OF h1]
  note b = subject_token_mandatory [of "''sub-01_bold.nii.gz''" "''sub-01_T1w.nii.gz''"
        "''atlas.nii.gz''" "''/out''", THEN conjunct2, rule_format, OF h2 h3 h4 h5]
  from a b show ?thesis by (rule conjI)
qed

text \<open>
  C4, as amended. When the subject search succeeds, the constructor returns, and the
  session, run and resolution fields are the results of their searches, so a failed
  search gives \<open>None\<close> and no exception; with the resolution \<open>None\<close>,
  \<^verbatim>\<open>get_template_space\<close> returns a string that ends in \<^verbatim>\<open>res-None\<close>.
\<close>

theorem optional_tokens_none:
  assumes "re_search ''sub-'' modf = Some s"
  shows "\<exists>r. name_resource_init modf t1wf tempf opath = Inr r
    \<and> ses r = re_search ''ses-'' modf \<and> run r = re_search ''run-'' modf
    \<and> res r = re_search ''res-'' tempf
    \<and> (re_search ''res-'' tempf = None \<longrightarrow>
         get_template_space r = ''space-'' @ space r @ ''_res-None'')"
proof -
  from name_resource_init_sub_Some [OF assms, of t1wf tempf opath]
  obtain r where r1: "name_resource_init modf t1wf tempf opath = Inr r"
    and r2: "ses r = re_search ''ses-'' modf" and r3: "run r = re_search ''run-'' modf"
    and r4: "res r = re_search ''res-'' tempf"
    by blast
  have r5: "re_search ''res-'' tempf = None \<longrightarrow>
      get_template_space r = ''space-'' @ space r @ ''_res-None''"
  proof
    assume "re_search ''res-'' tempf = None"
    with r4 have "res r = None" by simp
    then show "get_template_space r = ''space-'' @ space r @ ''_res-None''"
      by (simp add: get_template_space_def format_opt_def)
  qed
  show ?thesis
    by (rule exI [of _ r]) (intro conjI r1 r2 r3 r4 r5)
qed

theorem optional_tokens_none_witness:
  "\<exists>r. name_resource_init ''sub-01_bold.nii.gz'' ''sub-01_T1w.nii.gz'' ''MNI152_T1w.nii.gz''
          ''/out'' = Inr r
     \<and> ses r = None \<and> run r = None \<and> res r = None
     \<and> get_template_space r = ''space-MNI152_res-None''"
proof -
  have s: "re_search ''sub-'' ''sub-01_bold.nii.gz'' = Some ''sub-01''"
    by code_simp
  have n: "re_search ''ses-'' ''sub-01_bold.nii.gz'' = None"
    "re_search ''run-'' ''sub-01_bold.nii.gz'' = None"
    "re_search ''res-'' ''MNI152_T1w.nii.gz'' = None"
    by code_simp+
  from optional_tokens_none [OF s, of "''sub-01_T1w.nii.gz''" "''MNI152_T1w.nii.gz''" "''/out''"]
  obtain r where r: "name_resource_init ''sub-01_bold.nii.gz'' ''sub-01_T1w.nii.gz''
      ''MNI152_T1w.nii.gz'' ''/out'' = Inr r"
    "ses r = None" "run r = None" "res r = None"
    "get_template_space r = ''space-'' @ space r @ ''_res-None''"
    unfolding n by blast
  have "name_resource_init ''sub-01_bold.nii.gz'' ''sub-01_T1w.nii.gz''
      ''MNI152_T1w.nii.gz'' ''/out'' =
    Inr \<lparr> subi = ''sub-01_bold'', anati = ''sub-01_T1w'', sub = ''sub-01'', ses = None,
          run = None, temp = ''MNI152_T1w'', space = ''MNI152'', res = None,
          basepath = ''/out'', outdir = ''/out/sub-01'', dirs = None \<rparr>"
    by code_simp
  with r(1) have "r = \<lparr> subi = ''sub-01_bold'', anati = ''sub-01_T1w'', sub = ''sub-01'',
          ses = None, run = None, temp = ''MNI152_T1w'', space = ''MNI152'', res = None,
          basepath = ''/out'', outdir = ''/out/sub-01'', dirs = None \<rparr>"
    by simp
  then have "space r = ''MNI152''" by simp
  with r(5) have "get_template_space r = ''space-MNI152_res-None''" by simp
  with r(1-4) show ?thesis by blast
qed

text \<open>
  C4 as stated fails for the subject token: when the \<^verbatim>\<open>sub-\<close> search fails the
  constructor raises instead of storing \<open>None\<close>.
\<close>

theorem regex_failure_counterexample:
  "re_search ''sub-'' ''task-rest_run-1_bold.nii.gz'' = None
   \<and> name_resource_init ''task-rest_run-1_bold.nii.gz'' ''T1w.nii.gz'' ''MNI152_T1w.nii.gz''
        ''/out'' = Inl AttributeError"
  by code_simp

text \<open>
  C5, as amended. When the modality filename holds no \<^verbatim>\<open>ses-\<close> and the constructor
  returns, the session field is \<open>None\<close> and the output directory is the join of the
  base path and the subject token alone.
\<close>

theorem no_session_outdir:
  assumes "\<not> sublist ''ses-'' modf"
    and "name_resource_init modf t1wf tempf opath = Inr r"
  shows "ses r = None \<and> path_join [opath, sub r] = Inr (get_outdir r)"
proof -
  have s: "re_search ''sub-'' modf = Some (sub r)"
    using assms(2) by (rule name_resource_init_Inr)
  have n: "re_search ''ses-'' modf = None"
    using assms(1) by (rule re_search_None_no_sublist)
  from name_resource_init_sub_Some [OF s, of t1wf tempf opath] assms(2)
  have "ses r = re_search ''ses-'' modf"
    and "get_outdir_init opath (sub r) (re_search ''ses-'' modf) = Inr (outdir r)"
    by auto
  with n show ?thesis
    by (simp add: get_outdir_init_no_session get_outdir_def)
qed

theorem no_session_outdir_witness:
  "\<exists>r. name_resource_init ''/data/sub-01/func/sub-01_task-rest_bold.nii.gz''
          ''/data/sub-01/anat/sub-01_T1w.nii.gz'' ''/atlas/MNI152_T1w.nii.gz'' ''/out'' = Inr r
     \<and> ses r = None \<and> sub r = ''sub-01'' \<and> get_outdir r = ''/out/sub-01''"
proof -
  have n: "\<not> sublist ''ses-'' ''/data/sub-01/func/sub-01_task-rest_bold.nii.gz''"
    by (simp add: sublist_code)
  have e: "name_resource_init ''/data/sub-01/func/sub-01_task-rest_bold.nii.gz''
      ''/data/sub-01/anat/sub-01_T1w.nii.gz'' ''/atlas/MNI152_T1w.nii.gz'' ''/out'' =
    Inr \<lparr> subi = ''sub-01_task-rest_bold'', anati = ''sub-01_T1w'', sub = ''sub-01'',
          ses = None, run = None, temp = ''MNI152_T1w'', space = ''MNI152'', res = None,
          basepath = ''/out'', outdir = ''/out/sub-01'', dirs = None \<rparr>"
    by code_simp
  from no_session_outdir [OF n e] e show ?thesis
    by (simp add: join_step_def)
qed

text \<open>
  C5 as stated fails: a filename without \<^verbatim>\<open>ses-\<close> that has no subject token either
  makes the constructor raise before the session is looked at, so no session field is
  set and no output directory exists.
\<close>

theorem no_session_counterexample:
  "\<not> sublist ''ses-'' ''/data/task-rest_bold.nii.gz''
   \<and> name_resource_init ''/data/task-rest_bold.nii.gz'' ''/data/T1w.nii.gz''
        ''/atlas/MNI152_T1w.nii.gz'' ''/out'' = Inl AttributeError"
proof
  show "\<not> sublist ''ses-'' ''/data/task-rest_bold.nii.gz''"
    by (simp add: sublist_code)
  show "name_resource_init ''/data/task-rest_bold.nii.gz'' ''/data/T1w.nii.gz''
        ''/atlas/MNI152_T1w.nii.gz'' ''/out'' = Inl AttributeError"
    by code_simp
qed

lemma takeWhile_dot_or_underscore:
  "CHR ''_'' \<notin> set (takeWhile (\<lambda>c. c \<noteq> CHR ''.'') s) \<Longrightarrow>
     takeWhile (\<lambda>c. \<not> is_dot_or_underscore c) s = takeWhile (\<lambda>c. c \<noteq> CHR ''.'') s"
  by (induction s) (auto simp: is_dot_or_underscore_def)

text \<open>
  C7, as amended. \<^verbatim>\<open>get_label\<close> returns \<^verbatim>\<open>label-\<close> followed by the part of the path
  after its last slash, cut at the first dot or underscore. When that part has no
  underscore before its first dot, this is the path stripped of its directory components
  and extensions.
\<close>

theorem get_label_strips:
  "get_label label =
     Inr (''label-'' @ takeWhile (\<lambda>c. \<not> is_dot_or_underscore c) (strip_directories label))
   \<and> (CHR ''_'' \<notin> set (strip_extensions (strip_directories label)) \<longrightarrow>
        get_label label = Inr (get_label_spec label))"
proof -
  have g: "get_label label =
      Inr (''label-'' @ takeWhile (\<lambda>c. \<not> is_dot_or_underscore c) (strip_directories label))"
    by (simp add: get_label_def index0_split_on basename_strip_directories)
  moreover have "get_label label = Inr (get_label_spec label)"
    if "CHR ''_'' \<notin> set (strip_extensions (strip_directories label))"
    using that g
    by (simp add: get_label_spec_def strip_extensions_def takeWhile_dot_or_underscore)
  ultimately show ?thesis by blast
qed

theorem get_label_strips_witness:
  "get_label ''/atlases/desikan-res-2x2x2.nii.gz'' = Inr ''label-desikan-res-2x2x2''
   \<and> get_label_spec ''/atlases/desikan-res-2x2x2.nii.gz'' = ''label-desikan-res-2x2x2''"
proof -
  have s: "get_label_spec ''/atlases/desikan-res-2x2x2.nii.gz'' = ''label-desikan-res-2x2x2''"
    by code_simp
  have h: "CHR ''_'' \<notin>
      set (strip_extensions (strip_directories ''/atlases/desikan-res-2x2x2.nii.gz''))"
    by code_simp
  note a = get_label_strips [of "''/atlases/desikan-res-2x2x2.nii.gz''", THEN conjunct2,
      rule_format, OF h]
  from a s show ?thesis by (simp only: simp_thms)
qed

text \<open>
  C7 as stated fails when the file name has an underscore: everything from the
  underscore on is dropped, not only the extensions.
\<close>

theorem get_label_counterexample:
  "get_label ''/atlases/desikan_res-2x2x2.nii.gz'' = Inr ''label-desikan''
   \<and> get_label_spec ''/atlases/desikan_res-2x2x2.nii.gz'' = ''label-desikan_res-2x2x2''"
  by code_simp

section \<open>Claims about \<^verbatim>\<open>flatten\<close> and \<^verbatim>\<open>add_dirs\<close>\<close>

lemma flatten_append:
  "flatten d acc = acc @ leaves d"
  "flatten_items kvs acc = acc @ leaves_items kvs"
  by (induction d acc and kvs acc rule: flatten_flatten_items.induct) auto

text \<open>
  C10. With an explicit empty accumulator, \<^verbatim>\<open>flatten\<close> returns the leaves of the
  dictionary. Without it, the call appends to the shared default list and returns that
  list: whatever the list held stays in it, so the second of two such calls returns the
  leaves twice, and differs from the first as soon as the dictionary has a leaf.
\<close>

theorem flatten_leaves_shared_default:
  "flatten d [] = leaves d
   \<and> flatten_default d shared = (shared @ leaves d, shared @ leaves d)
   \<and> fst (flatten_default d (snd (flatten_default d []))) = leaves d @ leaves d
   \<and> (leaves d \<noteq> [] \<longrightarrow>
        fst (flatten_default d (snd (flatten_default d []))) \<noteq> fst (flatten_default d []))"
  by (simp add: flatten_append flatten_default_def Let_def)

theorem flatten_leaves_shared_default_witness:
  "flatten (Dict [(''output'', Dict [(''base'', Leaf ''/out/sub-01/'')]),
                  (''tmp'', Dict [(''base'', Leaf ''/out/sub-01/tmp'')])]) []
     = [''/out/sub-01/'', ''/out/sub-01/tmp'']
   \<and> fst (flatten_default
        (Dict [(''output'', Dict [(''base'', Leaf ''/out/sub-01/'')]),
               (''tmp'', Dict [(''base'', Leaf ''/out/sub-01/tmp'')])])
        (snd (flatten_default
           (Dict [(''output'', Dict [(''base'', Leaf ''/out/sub-01/'')]),
                  (''tmp'', Dict [(''base'', Leaf ''/out/sub-01/tmp'')])]) [])))
     = [''/out/sub-01/'', ''/out/sub-01/tmp'', ''/out/sub-01/'', ''/out/sub-01/tmp'']
   \<and> fst (flatten_default
        (Dict [(''output'', Dict [(''base'', Leaf ''/out/sub-01/'')]),
               (''tmp'', Dict [(''base'', Leaf ''/out/sub-01/tmp'')])])
        (snd (flatten_default
           (Dict [(''output'', Dict [(''base'', Leaf ''/out/sub-01/'')]),
                  (''tmp'', Dict [(''base'', Leaf ''/out/sub-01/tmp'')])]) [])))
     \<noteq> fst (flatten_default
        (Dict [(''output'', Dict [(''base'', Leaf ''/out/sub-01/'')]),
               (''tmp'', Dict [(''base'', Leaf ''/out/sub-01/tmp'')])]) [])"
proof -
  let ?d = "Dict [(''output'', Dict [(''base'', Leaf ''/out/sub-01/'')]),
                  (''tmp'', Dict [(''base'', Leaf ''/out/sub-01/tmp'')])]"
  have l: "leaves ?d = [''/out/sub-01/'', ''/out/sub-01/tmp'']"
    by simp
  then have ne: "leaves ?d \<noteq> []"
    by simp
  note t = flatten_leaves_shared_default [of ?d "[]"]
  from t have "flatten ?d [] = leaves ?d"
    by (rule conjunct1)
  moreover from t have "fst (flatten_default ?d (snd (flatten_default ?d []))) = leaves ?d @ leaves ?d"
    by (elim conjE)
  moreover from t ne
  have "fst (flatten_default ?d (snd (flatten_default ?d []))) \<noteq> fst (flatten_default ?d [])"
    by (elim conjE) (rule mp)
  ultimately show ?thesis
    unfolding l by simp
qed

lemma get_label_total: "\<exists>l. get_label x = Inr l"
  by (simp add: get_label_def index0_split_on)

lemma add_dirs_labels_total: "\<exists>d'. add_dirs_labels newdir ls d = Inr d'"
proof (induction ls arbitrary: d)
  case Nil
  show ?case by simp
next
  case (Cons label ls)
  obtain l where "get_label label = Inr l"
    using get_label_total by blast
  with Cons show ?case by simp
qed

lemma add_dirs_paths_total: "\<exists>d'. add_dirs_paths od addstr labels ldirs ps d = Inr d'"
proof (induction ps arbitrary: d)
  case Nil
  show ?case by simp
next
  case (Cons kp ps)
  obtain kwd path where kp: "kp = (kwd, path)"
    by (cases kp)
  obtain sub_d
    where "add_dirs_labels (foldl join_step od [addstr, path]) labels [] = Inr sub_d"
    using add_dirs_labels_total by blast
  with Cons kp show ?case by simp
qed

lemma add_dirs_types_total: "\<exists>ds'. add_dirs_types od labels ldirs ps dirtypes ds = Inr ds'"
proof (induction dirtypes arbitrary: ds)
  case Nil
  show ?case by simp
next
  case (Cons dirt dirtypes)
  let ?addstr = "if dirt = ''output'' then [] else dirt"
  obtain d where "add_dirs_paths od ?addstr labels ldirs ps
      (dict_set [] ''base'' (Leaf (foldl join_step od [?addstr]))) = Inr d"
    using add_dirs_paths_total by blast
  with Cons show ?case by (simp add: Let_def)
qed

lemma add_dirs_build_result:
  "\<exists>ds. add_dirs_types (outdir self) (as_label_list labels) ldirs ps
           [''output'', ''tmp'', ''qa''] [] = Inr ds
     \<and> add_dirs_build self ps labels ldirs =
         Inr (self\<lparr>dirs := Some (Dict ds)\<rparr>, flatten (Dict ds) [],
              ''mkdir -p '' @ str_join '' '' (flatten (Dict ds) []))"
proof -
  obtain ds where "add_dirs_types (outdir self) (as_label_list labels) ldirs ps
      [''output'', ''tmp'', ''qa''] [] = Inr ds"
    using add_dirs_types_total by blast
  then show ?thesis
    by (simp add: add_dirs_build_def get_outdir_def Let_def)
qed

text \<open>
  C8. \<^verbatim>\<open>add_dirs\<close> always builds its dictionary, and invoking it again on the resulting
  object with the same arguments gives the same object state, hence the same
  \<^verbatim>\<open>dirs\<close> mapping, the same flattened list of directories and the same \<^verbatim>\<open>mkdir\<close>
  command.
\<close>

theorem add_dirs_idempotent:
  "\<exists>self1 newdirs cmd.
     add_dirs_build self ps labels ldirs = Inr (self1, newdirs, cmd)
     \<and> add_dirs_build self1 ps labels ldirs = Inr (self1, newdirs, cmd)
     \<and> (\<exists>ds. dirs self1 = Some (Dict ds) \<and> newdirs = flatten (Dict ds) [])"
proof -
  obtain ds where ds: "add_dirs_types (outdir self) (as_label_list labels) ldirs ps
      [''output'', ''tmp'', ''qa''] [] = Inr ds"
    and b: "add_dirs_build self ps labels ldirs =
         Inr (self\<lparr>dirs := Some (Dict ds)\<rparr>, flatten (Dict ds) [],
              ''mkdir -p '' @ str_join '' '' (flatten (Dict ds) []))"
    using add_dirs_build_result by blast
  let ?self1 = "self\<lparr>dirs := Some (Dict ds)\<rparr>"
  obtain ds' where ds': "add_dirs_types (outdir ?self1) (as_label_list labels) ldirs ps
      [''output'', ''tmp'', ''qa''] [] = Inr ds'"
    and b': "add_dirs_build ?self1 ps labels ldirs =
         Inr (?self1\<lparr>dirs := Some (Dict ds')\<rparr>, flatten (Dict ds') [],
              ''mkdir -p '' @ str_join '' '' (flatten (Dict ds') []))"
    using add_dirs_build_result by blast
  from ds ds' have "ds' = ds" by simp
  with b' have "add_dirs_build ?self1 ps labels ldirs =
      Inr (?self1, flatten (Dict ds) [], ''mkdir -p '' @ str_join '' '' (flatten (Dict ds) []))"
    by simp
  with b show ?thesis by simp
qed

section \<open>Facts about sequencing\<close>

lemma bindp_liftp_Inr [simp]: "bindp (liftp (Inr x)) f = f x"
  by (rule ext) (simp add: bindp_def liftp_def)

lemma bindp_liftp_Inl [simp]: "bindp (liftp (Inl e)) f = raisep e"
  by (rule ext) (simp add: bindp_def liftp_def raisep_def)

lemma bindp_raisep [simp]: "bindp (raisep e) f = raisep e"
  by (rule ext) (simp add: bindp_def raisep_def)

lemma bindp_returnp [simp]: "bindp (returnp x) f = f x"
  by (rule ext) (simp add: bindp_def returnp_def)

lemma thenp_raisep [simp]: "thenp (raisep e) k = raisep e"
  by (simp add: thenp_def)

lemma ext_call_calm: "ext_call calm f args tr = (Inr (), tr @ [Call f args])"
  by (simp add: ext_call_def calm_def Let_def)

lemma lookup_global_label_name:
  "lookup_global star ''label_name'' =
     (case star ''label_name'' of None \<Rightarrow> Inl (NameError ''label_name'') | Some v \<Rightarrow> Inr v)"
  by (simp add: lookup_global_def names_after_star_def names_before_star_def
      split: option.splits)

lemma lookup_global_sys:
  "lookup_global star ''sys'' =
     (case star ''sys'' of None \<Rightarrow> Inl (NameError ''sys'') | Some v \<Rightarrow> Inr v)"
  by (simp add: lookup_global_def names_after_star_def names_before_star_def
      split: option.splits)

section \<open>Claims about \<^verbatim>\<open>ndmg_func_pipeline\<close> and \<^verbatim>\<open>main\<close>\<close>

text \<open>
  C1, as amended. When \<^verbatim>\<open>ndmg_func_worker\<close> raises an exception that derives from
  \<^verbatim>\<open>Exception\<close>, \<^verbatim>\<open>ndmg_func_pipeline\<close> prints the traceback and returns normally; an
  exception that leaves \<^verbatim>\<open>ndmg_func_pipeline\<close> does not derive from \<^verbatim>\<open>Exception\<close>.
\<close>

theorem pipeline_catches_Exception:
  "(ndmg_func_worker star w func t1w atlas atlas_brain atlas_mask lv_mask labels outd
       clean stc fmt tr = (Inl e, tr') \<longrightarrow> is_Exception e \<longrightarrow>
     ndmg_func_pipeline star w func t1w atlas atlas_brain atlas_mask lv_mask labels outd
       clean stc fmt tr = (Inr (), tr' @ [PrintTraceback e]))
   \<and> (fst (ndmg_func_pipeline star w func t1w atlas atlas_brain atlas_mask lv_mask labels outd
        clean stc fmt tr) = Inl e' \<longrightarrow> \<not> is_Exception e')"
proof (intro conjI impI)
  assume "ndmg_func_worker star w func t1w atlas atlas_brain atlas_mask lv_mask labels outd
       clean stc fmt tr = (Inl e, tr')" and "is_Exception e"
  then show "ndmg_func_pipeline star w func t1w atlas atlas_brain atlas_mask lv_mask labels
       outd clean stc fmt tr = (Inr (), tr' @ [PrintTraceback e])"
    by (simp add: ndmg_func_pipeline_def)
next
  assume a: "fst (ndmg_func_pipeline star w func t1w atlas atlas_brain atlas_mask lv_mask
       labels outd clean stc fmt tr) = Inl e'"
  obtain r t where rt: "ndmg_func_worker star w func t1w atlas atlas_brain atlas_mask lv_mask
       labels outd clean stc fmt tr = (r, t)"
    by (cases "ndmg_func_worker star w func t1w atlas atlas_brain atlas_mask lv_mask
       labels outd clean stc fmt tr")
  show "\<not> is_Exception e'"
  proof (cases r)
    case (Inl x)
    with a rt show ?thesis
      by (cases "is_Exception x") (simp_all add: ndmg_func_pipeline_def)
  next
    case (Inr u)
    with a rt show ?thesis
      by (simp add: ndmg_func_pipeline_def)
  qed
qed

theorem pipeline_catches_Exception_witness:
  "ndmg_func_pipeline Map.empty calm ''/data/task-rest.bold.nii.gz'' ''/data/T1w.nii.gz''
     ''/atlas/MNI152_T1w.nii.gz'' ''/atlas/brain.nii.gz'' ''/atlas/mask.nii.gz''
     ''/atlas/lv.nii.gz'' (LabelList []) ''/out'' False None ''gpickle'' []
   = (Inr (), [PrintTraceback AttributeError])"
proof -
  have h: "ndmg_func_worker Map.empty calm ''/data/task-rest.bold.nii.gz'' ''/data/T1w.nii.gz''
     ''/atlas/MNI152_T1w.nii.gz'' ''/atlas/brain.nii.gz'' ''/atlas/mask.nii.gz''
     ''/atlas/lv.nii.gz'' (LabelList []) ''/out'' False None ''gpickle'' []
     = (Inl AttributeError, [])"
    by code_simp
  have i: "is_Exception AttributeError"
    by simp
  from pipeline_catches_Exception [THEN conjunct1, rule_format, OF h i]
  show ?thesis by simp
qed

text \<open>
  C1 as stated fails: an interrupt during preprocessing is not an \<^verbatim>\<open>Exception\<close>, and it
  leaves both the worker and \<^verbatim>\<open>ndmg_func_pipeline\<close>.
\<close>

theorem pipeline_propagates_interrupt:
  "fst (ndmg_func_worker Map.empty (interrupt_during ''f_prep.preprocess'')
     ''/data/sub-01/func/sub-01_task-rest_bold.nii.gz'' ''/data/sub-01/anat/sub-01_T1w.nii.gz''
     ''/atlas/MNI152_T1w.nii.gz'' ''/atlas/brain.nii.gz'' ''/atlas/mask.nii.gz''
     ''/atlas/lv.nii.gz'' (LabelList [''/atlas/desikan.nii.gz'']) ''/out'' False None
     ''gpickle'' []) = Inl KeyboardInterrupt
   \<and> fst (ndmg_func_pipeline Map.empty (interrupt_during ''f_prep.preprocess'')
     ''/data/sub-01/func/sub-01_task-rest_bold.nii.gz'' ''/data/sub-01/anat/sub-01_T1w.nii.gz''
     ''/atlas/MNI152_T1w.nii.gz'' ''/atlas/brain.nii.gz'' ''/atlas/mask.nii.gz''
     ''/atlas/lv.nii.gz'' (LabelList [''/atlas/desikan.nii.gz'']) ''/out'' False None
     ''gpickle'' []) = Inl KeyboardInterrupt"
  by code_simp

text \<open>
  With \<^verbatim>\<open>file\<close> as the slice-timing argument and no usable file, \<^verbatim>\<open>main\<close> reaches
  \<^verbatim>\<open>sys.exit\<close> before it does anything else. What happens there depends on whether the
  module has a global \<^verbatim>\<open>sys\<close>: the file never imports it, so only the star import could
  bind it.
\<close>

lemma main_stc_file_without_sys:
  assumes "star ''sys'' = None" and "arg_stc result = ''file''"
    and "arg_stc_file result = None \<or> (\<exists>f. arg_stc_file result = Some f \<and> \<not> isfile f)"
  shows "main star isfile w result tr = (Inl (NameError ''sys''), tr)"
proof -
  have "main star isfile w result = raisep (NameError ''sys'')"
    using assms by (auto simp: main_def sys_exit_def lookup_global_sys Let_def)
  then show ?thesis by (simp add: raisep_def)
qed

lemma main_stc_file_with_sys:
  assumes "star ''sys'' = Some (PyModule ''sys'')" and "arg_stc result = ''file''"
    and "arg_stc_file result = None \<or> (\<exists>f. arg_stc_file result = Some f \<and> \<not> isfile f)"
  shows "\<exists>msg. main star isfile w result tr = (Inl (SystemExit msg), tr)"
proof -
  have "\<exists>msg. main star isfile w result = raisep (SystemExit msg)"
    using assms by (auto simp: main_def sys_exit_def lookup_global_sys Let_def)
  then show ?thesis by (auto simp: raisep_def)
qed

text \<open>
  C6. With the names that the file itself binds, the two runs below do not end in an
  explicit exit: the name \<^verbatim>\<open>sys\<close> is unbound, and \<^verbatim>\<open>main\<close> ends in \<^verbatim>\<open>NameError\<close> before
  any output. The exit status is still 1.
\<close>

theorem main_stc_file_NameError:
  "main Map.empty (\<lambda>f. False) calm (example_args ''file'' None) []
     = (Inl (NameError ''sys''), [])
   \<and> main Map.empty (\<lambda>f. False) calm (example_args ''file'' (Some ''/data/missing.txt'')) []
     = (Inl (NameError ''sys''), [])
   \<and> \<not> explicit_exit (fst (main Map.empty (\<lambda>f. False) calm (example_args ''file'' None) []))
   \<and> exit_status (fst (main Map.empty (\<lambda>f. False) calm (example_args ''file'' None) [])) = 1"
proof -
  have a: "main Map.empty (\<lambda>f. False) calm (example_args ''file'' None) []
     = (Inl (NameError ''sys''), [])"
    by (rule main_stc_file_without_sys) (simp_all add: example_args_def)
  have b: "main Map.empty (\<lambda>f. False) calm (example_args ''file'' (Some ''/data/missing.txt'')) []
     = (Inl (NameError ''sys''), [])"
    by (rule main_stc_file_without_sys) (simp_all add: example_args_def)
  from a b show ?thesis
    by (simp add: explicit_exit_def exit_status_def)
qed

section \<open>Facts about the directory tree of the worker\<close>

lemma map_of_dict_set: "map_of (dict_set d k v) = (map_of d)(k \<mapsto> v)"
  by (induction d k v rule: dict_set.induct) auto

lemma add_dirs_labels_keeps_leaf:
  "add_dirs_labels newdir ls d = Inr d' \<Longrightarrow> map_of d k = Some (Leaf p) \<Longrightarrow>
     \<exists>p'. map_of d' k = Some (Leaf p')"
proof (induction ls arbitrary: d p)
  case Nil
  then show ?case by simp
next
  case (Cons label ls)
  obtain l where l: "get_label label = Inr l"
    using get_label_total by blast
  let ?d1 = "dict_set d l (Leaf (foldl join_step newdir [l]))"
  from Cons.prems(1) l have r: "add_dirs_labels newdir ls ?d1 = Inr d'"
    by simp
  have "\<exists>q. map_of ?d1 k = Some (Leaf q)"
    using Cons.prems(2) by (simp add: map_of_dict_set)
  then obtain q where "map_of ?d1 k = Some (Leaf q)" by blast
  with Cons.IH [OF r] show ?case by blast
qed

lemma add_dirs_labels_has_label:
  "add_dirs_labels newdir ls d = Inr d' \<Longrightarrow> lab \<in> set ls \<Longrightarrow>
     \<exists>l p. get_label lab = Inr l \<and> map_of d' l = Some (Leaf p)"
proof (induction ls arbitrary: d)
  case Nil
  then show ?case by simp
next
  case (Cons label ls)
  obtain l where l: "get_label label = Inr l"
    using get_label_total by blast
  let ?d1 = "dict_set d l (Leaf (foldl join_step newdir [l]))"
  from Cons.prems(1) l have r: "add_dirs_labels newdir ls ?d1 = Inr d'"
    by simp
  show ?case
  proof (cases "lab = label")
    case True
    have "map_of ?d1 l = Some (Leaf (foldl join_step newdir [l]))"
      by (simp add: map_of_dict_set)
    from add_dirs_labels_keeps_leaf [OF r this] l True show ?thesis by blast
  next
    case False
    with Cons.prems(2) have "lab \<in> set ls" by simp
    from Cons.IH [OF r this] show ?thesis .
  qed
qed

lemma add_dirs_labels_covers:
  assumes "add_dirs_labels newdir ls [] = Inr d"
  shows "covers ls d"
proof -
  have "case get_label lab of Inl e \<Rightarrow> False
        | Inr l \<Rightarrow> (case map_of d l of Some (Leaf p) \<Rightarrow> True | _ \<Rightarrow> False)"
    if "lab \<in> set ls" for lab
    using add_dirs_labels_has_label [OF assms that] by auto
  then show ?thesis
    by (simp add: covers_def list_all_iff)
qed

lemma add_dirs_paths_literal:
  "\<exists>roi conn. covers ls roi \<and> covers ls conn
     \<and> add_dirs_paths od addstr ls label_dirs paths
          (dict_set [] ''base'' (Leaf (foldl join_step od [addstr])))
        = Inr (dirtype_dict od addstr roi conn)"
proof -
  obtain roi
    where roi: "add_dirs_labels (foldl join_step od [addstr, ''func/roi-timeseries'']) ls []
      = Inr roi"
    using add_dirs_labels_total by blast
  obtain conn
    where conn: "add_dirs_labels (foldl join_step od [addstr, ''func/connectomes'']) ls []
      = Inr conn"
    using add_dirs_labels_total by blast
  have "add_dirs_paths od addstr ls label_dirs paths
          (dict_set [] ''base'' (Leaf (foldl join_step od [addstr])))
        = Inr (dirtype_dict od addstr roi conn)"
    using roi conn by (simp add: paths_def label_dirs_def dirtype_dict_def)
  with add_dirs_labels_covers [OF roi] add_dirs_labels_covers [OF conn]
  show ?thesis by blast
qed

lemma add_dirs_types_literal:
  "\<exists>ro co rt ct rq cq. covers ls ro \<and> covers ls co
     \<and> add_dirs_types od ls label_dirs paths [''output'', ''tmp'', ''qa''] []
        = Inr [(''output'', Dict (dirtype_dict od [] ro co)),
               (''tmp'', Dict (dirtype_dict od ''tmp'' rt ct)),
               (''qa'', Dict (dirtype_dict od ''qa'' rq cq))]"
proof -
  obtain ro co where o: "covers ls ro" "covers ls co"
    "add_dirs_paths od [] ls label_dirs paths
       (dict_set [] ''base'' (Leaf (foldl join_step od [[]])))
     = Inr (dirtype_dict od [] ro co)"
    using add_dirs_paths_literal [of ls od "[]"] by blast
  obtain rt ct where t: "add_dirs_paths od ''tmp'' ls label_dirs paths
       (dict_set [] ''base'' (Leaf (foldl join_step od [''tmp''])))
     = Inr (dirtype_dict od ''tmp'' rt ct)"
    using add_dirs_paths_literal [of ls od "''tmp''"] by blast
  obtain rq cq where q: "add_dirs_paths od ''qa'' ls label_dirs paths
       (dict_set [] ''base'' (Leaf (foldl join_step od [''qa''])))
     = Inr (dirtype_dict od ''qa'' rq cq)"
    using add_dirs_paths_literal [of ls od "''qa''"] by blast
  have "add_dirs_types od ls label_dirs paths [''output'', ''tmp'', ''qa''] []
        = Inr [(''output'', Dict (dirtype_dict od [] ro co)),
               (''tmp'', Dict (dirtype_dict od ''tmp'' rt ct)),
               (''qa'', Dict (dirtype_dict od ''qa'' rq cq))]"
    using o(3) t q by (simp add: Let_def)
  with o(1,2) show ?thesis by blast
qed

lemma add_dirs_build_worker:
  "\<exists>namer newdirs. ready (as_label_list labels) namer
     \<and> add_dirs_build self paths labels label_dirs
        = Inr (namer, newdirs, ''mkdir -p '' @ str_join '' '' newdirs)"
proof -
  obtain ro co rt ct rq cq where c: "covers (as_label_list labels) ro"
    "covers (as_label_list labels) co"
    and t: "add_dirs_types (outdir self) (as_label_list labels) label_dirs paths
        [''output'', ''tmp'', ''qa''] []
        = Inr [(''output'', Dict (dirtype_dict (outdir self) [] ro co)),
               (''tmp'', Dict (dirtype_dict (outdir self) ''tmp'' rt ct)),
               (''qa'', Dict (dirtype_dict (outdir self) ''qa'' rq cq))]"
    using add_dirs_types_literal by blast
  let ?ds = "[(''output'', Dict (dirtype_dict (outdir self) [] ro co)),
               (''tmp'', Dict (dirtype_dict (outdir self) ''tmp'' rt ct)),
               (''qa'', Dict (dirtype_dict (outdir self) ''qa'' rq cq))]"
  have b: "add_dirs_build self paths labels label_dirs
      = Inr (self\<lparr>dirs := Some (Dict ?ds)\<rparr>, flatten (Dict ?ds) [],
             ''mkdir -p '' @ str_join '' '' (flatten (Dict ?ds) []))"
    using add_dirs_build_result [of self labels label_dirs paths] t by simp
  have "covers (as_label_list labels) ro \<and> covers (as_label_list labels) co \<and>
      dirs (self\<lparr>dirs := Some (Dict ?ds)\<rparr>) = Some (Dict ?ds)"
    using c by simp
  then have "ready (as_label_list labels) (self\<lparr>dirs := Some (Dict ?ds)\<rparr>)"
    unfolding ready_def by blast
  with b show ?thesis by blast
qed

lemma ready_dirs2_leaf:
  assumes "ready ls namer"
    and "a \<in> {''output'', ''tmp'', ''qa''}"
    and "k \<in> {''base'', ''prep_f'', ''prep_a'', ''reg_f'', ''reg_a'', ''nuis_f'', ''nuis_a'',
               ''ts_voxel''}"
  shows "\<exists>p. dirs2 namer a k = Inr (Leaf p)"
  using assms
  by (auto simp: ready_def dirs2_def dirs_of_def getitem_def dirtype_dict_def)

lemma ready_dirs1: "ready ls namer \<Longrightarrow> \<exists>d. dirs1 namer ''tmp'' = Inr d"
  by (auto simp: ready_def dirs1_def dirs_of_def getitem_def)

lemma ready_conn:
  "ready ls namer \<Longrightarrow> \<exists>d. dirs2 namer ''output'' ''conn'' = Inr (Dict d) \<and> covers ls d"
  by (auto simp: ready_def dirs2_def dirs_of_def getitem_def dirtype_dict_def)

lemma ready_ts_roi:
  "ready ls namer \<Longrightarrow> \<exists>d. dirs2 namer ''output'' ''ts_roi'' = Inr (Dict d) \<and> covers ls d"
  by (auto simp: ready_def dirs2_def dirs_of_def getitem_def dirtype_dict_def)

lemma name_derivative_leaf: "\<exists>p. name_derivative (Leaf f) x = Inr p"
  by (simp add: name_derivative_def)

lemma map_exc_total:
  "(\<And>x. x \<in> set xs \<Longrightarrow> \<exists>y. f x = Inr y) \<Longrightarrow> \<exists>ys. map_exc f xs = Inr ys"
proof (induction xs)
  case Nil
  show ?case by simp
next
  case (Cons x xs)
  obtain y where "f x = Inr y" using Cons.prems by auto
  moreover obtain ys where "map_exc f xs = Inr ys" using Cons by auto
  ultimately show ?case by simp
qed

lemma covers_getitem:
  assumes "covers ls d" and "lab \<in> set ls"
  shows "\<exists>l p. get_label lab = Inr l \<and> getitem (Dict d) l = Inr (Leaf p)"
proof -
  have "case get_label lab of Inl e \<Rightarrow> False
        | Inr l \<Rightarrow> (case map_of d l of Some (Leaf p) \<Rightarrow> True | _ \<Rightarrow> False)"
    using assms by (simp add: covers_def list_all_iff)
  then show ?thesis
    by (auto simp: getitem_def split: sum.splits option.splits nested.splits)
qed

lemma ready_connectomes:
  assumes "ready ls namer"
  shows "\<exists>cs. map_exc (connectome_name namer fmt) ls = Inr cs"
proof (rule map_exc_total)
  fix lab assume lab: "lab \<in> set ls"
  obtain d where d: "dirs2 namer ''output'' ''conn'' = Inr (Dict d)" "covers ls d"
    using ready_conn [OF assms] by blast
  obtain l p where "get_label lab = Inr l" "getitem (Dict d) l = Inr (Leaf p)"
    using covers_getitem [OF d(2) lab] by blast
  with d(1) show "\<exists>y. connectome_name namer fmt lab = Inr y"
    by (simp add: connectome_name_def name_derivative_def)
qed

lemma ready_roi_ts:
  assumes "ready ls namer"
  shows "\<exists>rs. map_exc (roi_ts_name namer) ls = Inr rs"
proof (rule map_exc_total)
  fix lab assume lab: "lab \<in> set ls"
  obtain d where d: "dirs2 namer ''output'' ''ts_roi'' = Inr (Dict d)" "covers ls d"
    using ready_ts_roi [OF assms] by blast
  obtain l p where "get_label lab = Inr l" "getitem (Dict d) l = Inr (Leaf p)"
    using covers_getitem [OF d(2) lab] by blast
  with d(1) show "\<exists>y. roi_ts_name namer lab = Inr y"
    by (simp add: roi_ts_name_def name_derivative_def)
qed

lemma ready_derivative_names:
  assumes "ready ls namer"
  shows "\<exists>dv. derivative_names namer = Inr dv"
proof -
  obtain q where q: "dirs2 namer ''qa'' ''base'' = Inr (Leaf q)"
    using ready_dirs2_leaf [OF assms, of "''qa''" "''base''"] by auto
  obtain d1 where d1: "dirs2 namer ''output'' ''prep_f'' = Inr (Leaf d1)"
    using ready_dirs2_leaf [OF assms, of "''output''" "''prep_f''"] by auto
  obtain d2 where d2: "dirs2 namer ''tmp'' ''prep_f'' = Inr (Leaf d2)"
    using ready_dirs2_leaf [OF assms, of "''tmp''" "''prep_f''"] by auto
  obtain d3 where d3: "dirs2 namer ''output'' ''prep_a'' = Inr (Leaf d3)"
    using ready_dirs2_leaf [OF assms, of "''output''" "''prep_a''"] by auto
  obtain d4 where d4: "dirs2 namer ''output'' ''reg_f'' = Inr (Leaf d4)"
    using ready_dirs2_leaf [OF assms, of "''output''" "''reg_f''"] by auto
  obtain d5 where d5: "dirs2 namer ''output'' ''reg_a'' = Inr (Leaf d5)"
    using ready_dirs2_leaf [OF assms, of "''output''" "''reg_a''"] by auto
  obtain d6 where d6: "dirs2 namer ''output'' ''nuis_f'' = Inr (Leaf d6)"
    using ready_dirs2_leaf [OF assms, of "''output''" "''nuis_f''"] by auto
  obtain d7 where d7: "dirs2 namer ''output'' ''ts_voxel'' = Inr (Leaf d7)"
    using ready_dirs2_leaf [OF assms, of "''output''" "''ts_voxel''"] by auto
  show ?thesis
    by (simp add: derivative_names_def q d1 d2 d3 d4 d5 d6 d7 name_derivative_def Let_def)
qed

section \<open>Rules for the events and the outcome of a computation\<close>

lemma emits_returnp: "emits P (returnp x)"
  by (simp add: emits_def returnp_def)

lemma emits_raisep: "emits P (raisep e)"
  by (simp add: emits_def raisep_def)

lemma emits_liftp: "emits P (liftp m)"
  by (simp add: emits_def liftp_def)

lemma emits_printp: "P (Print s) \<Longrightarrow> emits P (printp s)"
  by (simp add: emits_def printp_def)

lemma emits_ext_call: "P (Call f args) \<Longrightarrow> emits P (ext_call w f args)"
  by (simp add: emits_def ext_call_def Let_def split: option.splits)

lemma emits_bindp:
  assumes "emits P m" and "\<And>x. emits P (f x)"
  shows "emits P (bindp m f)"
  unfolding emits_def
proof
  fix tr
  obtain r t where rt: "m tr = (r, t)" by (cases "m tr")
  from assms(1) rt obtain n1 where n1: "t = tr @ n1" "list_all P n1"
    unfolding emits_def by (metis snd_conv)
  show "\<exists>new. snd (bindp m f tr) = tr @ new \<and> list_all P new"
  proof (cases r)
    case (Inl e)
    with rt n1 show ?thesis by (simp add: bindp_def)
  next
    case (Inr x)
    from assms(2) [of x] obtain n2 where "snd (f x t) = t @ n2" "list_all P n2"
      unfolding emits_def by blast
    with Inr rt n1 have "snd (bindp m f tr) = tr @ (n1 @ n2) \<and> list_all P (n1 @ n2)"
      by (simp add: bindp_def)
    then show ?thesis by blast
  qed
qed

lemma emits_thenp: "emits P m \<Longrightarrow> emits P k \<Longrightarrow> emits P (thenp m k)"
  by (simp add: thenp_def emits_bindp)

lemma emits_mono:
  assumes "emits P m" and "\<And>e. P e \<Longrightarrow> Q e"
  shows "emits Q m"
  unfolding emits_def
proof
  fix tr
  from assms(1) obtain new where n: "snd (m tr) = tr @ new" "list_all P new"
    unfolding emits_def by blast
  from n(2) assms(2) have "list_all Q new"
    by (simp add: list_all_iff)
  with n(1) show "\<exists>new. snd (m tr) = tr @ new \<and> list_all Q new" by blast
qed

lemma run_spec_returnp: "Q x \<Longrightarrow> run_spec w Q E (returnp x)"
  by (simp add: run_spec_def returnp_def)

lemma run_spec_raisep: "E e \<Longrightarrow> run_spec w Q E (raisep e)"
  by (simp add: run_spec_def raisep_def)

lemma run_spec_printp: "run_spec w (\<lambda>u. True) E (printp s)"
  by (simp add: run_spec_def printp_def)

lemma run_spec_ext_call: "run_spec w (\<lambda>u. True) E (ext_call w f args)"
  by (simp add: run_spec_def ext_call_def Let_def split: option.splits)

lemma run_spec_bindp:
  assumes "run_spec w Q E m" and "\<And>x. Q x \<Longrightarrow> run_spec w R E (f x)"
  shows "run_spec w R E (bindp m f)"
  unfolding run_spec_def
proof
  fix tr
  obtain r t where rt: "m tr = (r, t)" by (cases "m tr")
  show "case bindp m f tr of (Inl e, tr') \<Rightarrow> E e \<or> w tr' = Some e | (Inr x, tr') \<Rightarrow> R x"
  proof (cases r)
    case (Inl e)
    with assms(1) rt have "E e \<or> w t = Some e"
      unfolding run_spec_def by (metis (mono_tags, lifting) old.sum.simps(5) case_prod_conv)
    with Inl rt show ?thesis by (simp add: bindp_def)
  next
    case (Inr x)
    with assms(1) rt have "Q x"
      unfolding run_spec_def by (metis (mono_tags, lifting) old.sum.simps(6) case_prod_conv)
    from assms(2) [OF this] have "case f x t of (Inl e, tr') \<Rightarrow> E e \<or> w tr' = Some e
        | (Inr x, tr') \<Rightarrow> R x"
      by (simp add: run_spec_def)
    with Inr rt show ?thesis by (simp add: bindp_def)
  qed
qed

lemma run_spec_thenp:
  "run_spec w (\<lambda>u. True) E m \<Longrightarrow> run_spec w R E k \<Longrightarrow> run_spec w R E (thenp m k)"
  unfolding thenp_def by (rule run_spec_bindp)

section \<open>The parts of the worker\<close>

lemma quiet_mkdir: "quiet (Call ''mgu.execute_cmd'' [AStr (''mkdir -p '' @ x)])"
  by (simp add: quiet_def graph_save_or_cleanup_def)

lemma quiet_Print: "quiet (Print s)"
  by (simp add: quiet_def graph_save_or_cleanup_def)

lemma quiet_no_cleanup: "quiet e \<Longrightarrow> no_cleanup e"
  by (auto simp: quiet_def no_cleanup_def graph_save_or_cleanup_def is_cleanup_def
      split: event.splits)

lemma add_dirs_worker:
  "\<exists>namer x. ready (as_label_list labels) namer
     \<and> add_dirs w self paths labels label_dirs
        = thenp (ext_call w ''mgu.execute_cmd'' [AStr (''mkdir -p '' @ x)]) (returnp namer)"
proof -
  obtain namer newdirs where r: "ready (as_label_list labels) namer"
    and b: "add_dirs_build self paths labels label_dirs
        = Inr (namer, newdirs, ''mkdir -p '' @ str_join '' '' newdirs)"
    using add_dirs_build_worker by blast
  have "add_dirs w self paths labels label_dirs
        = thenp (ext_call w ''mgu.execute_cmd''
                   [AStr (''mkdir -p '' @ str_join '' '' newdirs)]) (returnp namer)"
    by (simp add: add_dirs_def b)
  with r show ?thesis by blast
qed

lemma add_dirs_emits: "emits quiet (add_dirs w self paths labels label_dirs)"
proof -
  obtain namer x where a: "add_dirs w self paths labels label_dirs
        = thenp (ext_call w ''mgu.execute_cmd'' [AStr (''mkdir -p '' @ x)]) (returnp namer)"
    using add_dirs_worker by blast
  show ?thesis
    unfolding a by (intro emits_thenp emits_ext_call emits_returnp quiet_mkdir)
qed

lemma add_dirs_run_spec:
  "run_spec w (ready (as_label_list labels)) E (add_dirs w self paths labels label_dirs)"
proof -
  obtain namer x where r: "ready (as_label_list labels) namer"
    and a: "add_dirs w self paths labels label_dirs
        = thenp (ext_call w ''mgu.execute_cmd'' [AStr (''mkdir -p '' @ x)]) (returnp namer)"
    using add_dirs_worker by blast
  show ?thesis
    unfolding a by (intro run_spec_thenp run_spec_ext_call run_spec_returnp r)
qed

lemma announce_emits: "emits quiet (announce clean dv)"
  unfolding announce_def
  by (cases clean)
    (simp_all add: emits_thenp emits_printp emits_returnp quiet_Print)

lemma announce_run_spec: "run_spec w (\<lambda>u. True) E (announce clean dv)"
  unfolding announce_def
  by (cases clean)
    (simp_all add: run_spec_thenp run_spec_printp run_spec_returnp)

lemma stages_emits:
  "emits quiet (stages w namer dv func t1w atlas atlas_brain atlas_mask lv_mask stc)"
  unfolding stages_def
  by (intro emits_thenp emits_bindp emits_liftp emits_printp emits_ext_call)
    (simp_all add: quiet_def graph_save_or_cleanup_def)

lemma stages_run_spec:
  assumes "ready ls namer"
  shows "run_spec w (\<lambda>u. True) E
    (stages w namer dv func t1w atlas atlas_brain atlas_mask lv_mask stc)"
proof -
  obtain a where a: "dirs2 namer ''tmp'' ''prep_f'' = Inr (Leaf a)"
    using ready_dirs2_leaf [OF assms, of "''tmp''" "''prep_f''"] by auto
  obtain b where b: "dirs2 namer ''tmp'' ''prep_a'' = Inr (Leaf b)"
    using ready_dirs2_leaf [OF assms, of "''tmp''" "''prep_a''"] by auto
  obtain c where c: "dirs1 namer ''tmp'' = Inr c"
    using ready_dirs1 [OF assms] by blast
  show ?thesis
    unfolding stages_def a b c bindp_liftp_Inr
    by (intro run_spec_thenp run_spec_printp run_spec_ext_call)
qed

lemma roi_body_emits:
  "emits no_cleanup (roi_body w dv labels roi_ts connectomes fmt idx label)"
  unfolding roi_body_def
  by (intro emits_thenp emits_bindp emits_liftp emits_printp emits_ext_call)
    (simp_all add: no_cleanup_def is_cleanup_def)

lemma roi_loop_emits:
  "emits no_cleanup (roi_loop w dv labels roi_ts connectomes fmt idx label_name)"
  by (induction label_name arbitrary: idx)
    (simp_all add: emits_returnp emits_thenp roi_body_emits)

lemma finish_raises:
  "finish w namer dv clean =
     thenp (ext_call w ''qc_func.save'' [AStr (qc_stats dv)])
       (thenp (printp ''Execution took: '') (raisep AttributeError))"
  by (simp add: finish_def instance_getitem_def)

lemma finish_emits: "emits no_cleanup (finish w namer dv clean)"
  unfolding finish_raises
  by (intro emits_thenp emits_printp emits_ext_call emits_raisep)
    (simp_all add: no_cleanup_def is_cleanup_def)

lemma worker_emits:
  assumes P: "\<And>e. quiet e \<Longrightarrow> P e"
    and tail: "\<And>namer dv ls roi_ts connectomes.
      emits P (bindp (liftp (bind_exc (lookup_global star ''label_name'') iterate))
        (\<lambda>label_name. thenp (roi_loop w dv ls roi_ts connectomes fmt 0 label_name)
                         (finish w namer dv clean)))"
  shows "emits P (ndmg_func_worker star w func t1w atlas atlas_brain atlas_mask lv_mask
    labels outd clean stc fmt)"
  unfolding ndmg_func_worker_def Let_def
  by (intro emits_bindp emits_thenp emits_liftp tail
      emits_mono [OF add_dirs_emits P] emits_mono [OF announce_emits P]
      emits_mono [OF stages_emits P] emits_printp P quiet_Print)

lemma worker_quiet:
  assumes "star ''label_name'' = None"
  shows "emits quiet (ndmg_func_worker star w func t1w atlas atlas_brain atlas_mask lv_mask
    labels outd clean stc fmt)"
proof (rule worker_emits)
  fix namer dv ls roi_ts connectomes
  show "emits quiet (bindp (liftp (bind_exc (lookup_global star ''label_name'') iterate))
        (\<lambda>label_name. thenp (roi_loop w dv ls roi_ts connectomes fmt 0 label_name)
                         (finish w namer dv clean)))"
    using assms by (simp add: lookup_global_label_name emits_raisep)
qed

lemma worker_no_cleanup:
  "emits no_cleanup (ndmg_func_worker star w func t1w atlas atlas_brain atlas_mask lv_mask
    labels outd clean stc fmt)"
proof (rule worker_emits)
  fix e assume "quiet e"
  then show "no_cleanup e" by (rule quiet_no_cleanup)
next
  fix namer dv ls roi_ts connectomes
  show "emits no_cleanup (bindp (liftp (bind_exc (lookup_global star ''label_name'') iterate))
        (\<lambda>label_name. thenp (roi_loop w dv ls roi_ts connectomes fmt 0 label_name)
                         (finish w namer dv clean)))"
    by (intro emits_bindp emits_thenp emits_liftp roi_loop_emits finish_emits)
qed

lemma worker_run_spec:
  assumes star: "star ''label_name'' = None"
    and init: "name_resource_init func t1w atlas outd = Inr namer0"
  shows "run_spec w (\<lambda>u. False) (\<lambda>e. e = NameError ''label_name'')
    (ndmg_func_worker star w func t1w atlas atlas_brain atlas_mask lv_mask
       labels outd clean stc fmt)"
  unfolding ndmg_func_worker_def init bindp_liftp_Inr
proof (rule run_spec_bindp [OF add_dirs_run_spec])
  fix namer
  assume r: "ready (as_label_list labels) namer"
  obtain dv where dv: "derivative_names namer = Inr dv"
    using ready_derivative_names [OF r] by blast
  obtain cs where cs: "map_exc (connectome_name namer fmt) (as_label_list labels) = Inr cs"
    using ready_connectomes [OF r] by blast
  obtain rs where rs: "map_exc (roi_ts_name namer) (as_label_list labels) = Inr rs"
    using ready_roi_ts [OF r] by blast
  have tail: "bindp (liftp (bind_exc (lookup_global star ''label_name'') iterate)) f
      = raisep (NameError ''label_name'')" for f :: "string list \<Rightarrow> unit prog"
    using star by (simp add: lookup_global_label_name)
  show "run_spec w (\<lambda>u. False) (\<lambda>e. e = NameError ''label_name'')
     (bindp (liftp (derivative_names namer))
       (\<lambda>dv. thenp (announce clean dv)
          (let labels = as_label_list labels
           in bindp (liftp (map_exc (connectome_name namer fmt) labels))
             (\<lambda>connectomes. bindp (liftp (map_exc (roi_ts_name namer) labels))
               (\<lambda>roi_ts. thenp (printp (''ROI timeseries downsampled to given labels: '' @
                                     str_join '', '' roi_ts))
                 (thenp (printp (''Connectomes downsampled to given labels: '' @
                           str_join '', '' connectomes))
                   (thenp (stages w namer dv func t1w atlas atlas_brain atlas_mask lv_mask stc)
                     (bindp (liftp (bind_exc (lookup_global star ''label_name'') iterate))
                       (\<lambda>label_name. thenp (roi_loop w dv labels roi_ts connectomes fmt 0
                                             label_name)
                                        (finish w namer dv clean))))))))))"
    unfolding dv cs rs Let_def tail bindp_liftp_Inr
    by (intro run_spec_thenp announce_run_spec run_spec_printp stages_run_spec [OF r]
        run_spec_raisep refl)
qed

section \<open>Claim about \<^verbatim>\<open>ndmg_func_worker\<close>\<close>

text \<open>
  C2. The name \<^verbatim>\<open>label_name\<close> is bound nowhere in the file, so it is unbound unless
  the star import binds it. Then, when the constructor of the namer succeeds and every
  call into the outside that the run makes returns normally, the worker ends in
  \<^verbatim>\<open>NameError\<close> for \<^verbatim>\<open>label_name\<close>; and whatever the outside does, the run makes no call
  that builds or saves a graph, saves the statistics or runs the cleanup command. The
  cleanup command is run in no case at all, since the namer cannot be subscripted.
\<close>

theorem worker_stops_at_roi_loop:
  "(star ''label_name'' = None \<longrightarrow> \<not> isl (name_resource_init func t1w atlas outd) \<longrightarrow>
      (\<forall>t. prefix t (snd (ndmg_func_worker star w func t1w atlas atlas_brain atlas_mask
                            lv_mask labels outd clean stc fmt tr)) \<longrightarrow> w t = None) \<longrightarrow>
      fst (ndmg_func_worker star w func t1w atlas atlas_brain atlas_mask lv_mask labels outd
             clean stc fmt tr) = Inl (NameError ''label_name''))
   \<and> (star ''label_name'' = None \<longrightarrow>
        (\<exists>new. snd (ndmg_func_worker star w func t1w atlas atlas_brain atlas_mask lv_mask
                       labels outd clean stc fmt tr) = tr @ new \<and> list_all quiet new))
   \<and> (\<exists>new. snd (ndmg_func_worker star w func t1w atlas atlas_brain atlas_mask lv_mask
                    labels outd clean stc fmt tr) = tr @ new \<and> list_all no_cleanup new)"
proof (intro conjI impI)
  let ?W = "ndmg_func_worker star w func t1w atlas atlas_brain atlas_mask lv_mask labels outd
    clean stc fmt"
  assume star: "star ''label_name'' = None"
    and init: "\<not> isl (name_resource_init func t1w atlas outd)"
    and calls: "\<forall>t. prefix t (snd (?W tr)) \<longrightarrow> w t = None"
  from init obtain namer0 where "name_resource_init func t1w atlas outd = Inr namer0"
    by (cases "name_resource_init func t1w atlas outd") simp_all
  with star have "run_spec w (\<lambda>u. False) (\<lambda>e. e = NameError ''label_name'') ?W"
    by (rule worker_run_spec)
  then have rs: "case ?W tr of (Inl e, tr') \<Rightarrow> e = NameError ''label_name'' \<or> w tr' = Some e
      | (Inr x, tr') \<Rightarrow> False"
    by (simp add: run_spec_def)
  obtain r t where rt: "?W tr = (r, t)" by (cases "?W tr")
  from calls rt have "w t = None" by simp
  with rs rt show "fst (?W tr) = Inl (NameError ''label_name'')"
    by (cases r) simp_all
next
  assume "star ''label_name'' = None"
  then have "emits quiet (ndmg_func_worker star w func t1w atlas atlas_brain atlas_mask
      lv_mask labels outd clean stc fmt)"
    by (rule worker_quiet)
  then show "\<exists>new. snd (ndmg_func_worker star w func t1w atlas atlas_brain atlas_mask lv_mask
                       labels outd clean stc fmt tr) = tr @ new \<and> list_all quiet new"
    by (simp add: emits_def)
next
  from worker_no_cleanup
  show "\<exists>new. snd (ndmg_func_worker star w func t1w atlas atlas_brain atlas_mask lv_mask
                    labels outd clean stc fmt tr) = tr @ new \<and> list_all no_cleanup new"
    by (simp add: emits_def)
qed

theorem worker_stops_at_roi_loop_witness:
  "fst (ndmg_func_worker Map.empty calm
          ''/data/sub-01/func/sub-01_task-rest_bold.nii.gz''
          ''/data/sub-01/anat/sub-01_T1w.nii.gz'' ''/atlas/MNI152_T1w.nii.gz''
          ''/atlas/brain.nii.gz'' ''/atlas/mask.nii.gz'' ''/atlas/lv.nii.gz''
          (LabelList [''/atlas/desikan.nii.gz'']) ''/out'' False None ''gpickle'' [])
     = Inl (NameError ''label_name'')
   \<and> list_all quiet (snd (ndmg_func_worker Map.empty calm
          ''/data/sub-01/func/sub-01_task-rest_bold.nii.gz''
          ''/data/sub-01/anat/sub-01_T1w.nii.gz'' ''/atlas/MNI152_T1w.nii.gz''
          ''/atlas/brain.nii.gz'' ''/atlas/mask.nii.gz'' ''/atlas/lv.nii.gz''
          (LabelList [''/atlas/desikan.nii.gz'']) ''/out'' False None ''gpickle'' []))"
proof -
  let ?W = "ndmg_func_worker Map.empty calm
          ''/data/sub-01/func/sub-01_task-rest_bold.nii.gz''
          ''/data/sub-01/anat/sub-01_T1w.nii.gz'' ''/atlas/MNI152_T1w.nii.gz''
          ''/atlas/brain.nii.gz'' ''/atlas/mask.nii.gz'' ''/atlas/lv.nii.gz''
          (LabelList [''/atlas/desikan.nii.gz'']) ''/out'' False None ''gpickle''"
  have h1: "Map.empty ''label_name'' = (None :: pyval option)"
    by simp
  have h2: "\<not> isl (name_resource_init ''/data/sub-01/func/sub-01_task-rest_bold.nii.gz''
      ''/data/sub-01/anat/sub-01_T1w.nii.gz'' ''/atlas/MNI152_T1w.nii.gz'' ''/out'')"
    by code_simp
  have h3: "calm t = None" if "prefix t (snd (?W []))" for t
    by (simp add: calm_def)
  note t = worker_stops_at_roi_loop [of Map.empty
      "''/data/sub-01/func/sub-01_task-rest_bold.nii.gz''"
      "''/data/sub-01/anat/sub-01_T1w.nii.gz''" "''/atlas/MNI152_T1w.nii.gz''" "''/out''"
      calm "''/atlas/brain.nii.gz''" "''/atlas/mask.nii.gz''" "''/atlas/lv.nii.gz''"
      "LabelList [''/atlas/desikan.nii.gz'']" False None "''gpickle''" "[]"]
  from t [THEN conjunct1, rule_format, OF h1 h2 h3]
  have a: "fst (?W []) = Inl (NameError ''label_name'')" .
  from t [THEN conjunct2, THEN conjunct1, rule_format, OF h1]
  have b: "list_all quiet (snd (?W []))" by simp
  from a b show ?thesis by (rule conjI)
qed

end
